theory Spec2Isabelle
  imports Main "HOL-Library.AList"
begin

section \<open>JavaScript values\<close>

text \<open>
  Plain data that travels through the library untouched (query parameters, request
  bodies, resources, adapter results, Mongo criteria) is a JSON-like value. An object is
  an association list in insertion order.
\<close>

datatype jsval =
    JUndefined
  | JNull
  | JBool bool
  | JNum int
  | JStr string
  | JArr "jsval list"
  | JObj "(string \<times> jsval) list"

text \<open>JavaScript truthiness, as \<open>if(x)\<close>, \<open>x && y\<close> and \<open>x || y\<close> read it.\<close>

fun truthy :: "jsval \<Rightarrow> bool" where
  "truthy JUndefined = False"
| "truthy JNull = False"
| "truthy (JBool b) = b"
| "truthy (JNum n) = (n \<noteq> 0)"
| "truthy (JStr s) = (s \<noteq> [])"
| "truthy (JArr xs) = True"
| "truthy (JObj kvs) = True"

text \<open>An optional string property: \<open>None\<close> is \<open>undefined\<close>; the empty string is falsy.\<close>

definition truthy_str :: "string option \<Rightarrow> bool" where
  "truthy_str s = (case s of None \<Rightarrow> False | Some t \<Rightarrow> t \<noteq> [])"

text \<open>\<open>a || b\<close> on optional strings.\<close>

definition or_str :: "string option \<Rightarrow> string option \<Rightarrow> string option" where
  "or_str a b = (if truthy_str a then a else b)"

text \<open>String concatenation renders \<open>undefined\<close> as the text \<open>undefined\<close>.\<close>

definition str_of :: "string option \<Rightarrow> string" where
  "str_of s = (case s of None \<Rightarrow> ''undefined'' | Some t \<Rightarrow> t)"

text \<open>
  Text is kept as UTF-8: one \<open>char\<close> is one byte, and a code point above U+007F is the
  bytes of its encoding. \<open>toLowerCase\<close> and \<open>toUpperCase\<close> are given for the code points up
  to U+00FF, which is all a method name or a header value holds (Node decodes header bytes
  one byte to one code point): the ASCII letters as single bytes, and U+00C0 to U+00FF as
  the two bytes \<open>0xC3 0x80\<close> to \<open>0xC3 0xBF\<close>. Lower case adds 0x20 to U+00C0..U+00DE except
  the multiplication sign U+00D7. Upper case subtracts 0x20 from U+00E0..U+00FE except the
  division sign U+00F7, turns the sharp s U+00DF into \<open>SS\<close>, the micro sign U+00B5 into
  U+039C and U+00FF into U+0178. Every other byte is kept.
\<close>

definition toLowerChar :: "char \<Rightarrow> char" where
  "toLowerChar c =
     (let n = (of_char c :: nat) in if 65 \<le> n \<and> n \<le> 90 then char_of (n + 32) else c)"

definition toUpperChar :: "char \<Rightarrow> char" where
  "toUpperChar c =
     (let n = (of_char c :: nat) in if 97 \<le> n \<and> n \<le> 122 then char_of (n - 32) else c)"

fun toLowerCase :: "string \<Rightarrow> string" where
  "toLowerCase [] = []"
| "toLowerCase [c] = [toLowerChar c]"
| "toLowerCase (c # d # cs) =
     (let n = (of_char d :: nat)
      in if c = CHR 0xC3 \<and> 0x80 \<le> n \<and> n \<le> 0x9E \<and> n \<noteq> 0x97
         then c # char_of (n + 0x20) # toLowerCase cs
         else toLowerChar c # toLowerCase (d # cs))"

fun toUpperCase :: "string \<Rightarrow> string" where
  "toUpperCase [] = []"
| "toUpperCase [c] = [toUpperChar c]"
| "toUpperCase (c # d # cs) =
     (let n = (of_char d :: nat)
      in if c = CHR 0xC3 \<and> 0xA0 \<le> n \<and> n \<le> 0xBE \<and> n \<noteq> 0xB7
         then c # char_of (n - 0x20) # toUpperCase cs
         else if c = CHR 0xC3 \<and> n = 0x9F then ''SS'' @ toUpperCase cs
         else if c = CHR 0xC3 \<and> n = 0xBF then CHR 0xC5 # CHR 0xB8 # toUpperCase cs
         else if c = CHR 0xC2 \<and> n = 0xB5 then CHR 0xCE # CHR 0x9C # toUpperCase cs
         else toUpperChar c # toUpperCase (d # cs))"

section \<open>Errors and thrown values\<close>

text \<open>
  The class \<open>APIError\<close> is not among the sources. An instance is represented by the
  arguments its constructor receives in the sources, \<open>new APIError(status, code, text)\<close>:
  the optional status, the optional machine-readable code and the human-readable text
  (\<open>None\<close>: the argument is \<open>undefined\<close>).
\<close>

datatype api_error =
  APIError (err_status: "nat option") (api_code: "string option") (errtext: string)

text \<open>
  A status as a JavaScript number: \<open>NaN\<close> or a number. \<open>Number(err.status)\<close> is \<open>NaN\<close> for an
  error without a status. As a condition, \<open>undefined\<close>, \<open>NaN\<close> and 0 are falsy.
\<close>

datatype jsnum = NaN | Numeric nat

definition js_Number :: "nat option \<Rightarrow> jsnum" where
  "js_Number st = (case st of None \<Rightarrow> NaN | Some n \<Rightarrow> Numeric n)"

definition truthy_num :: "jsnum option \<Rightarrow> bool" where
  "truthy_num st =
     (case st of None \<Rightarrow> False | Some NaN \<Rightarrow> False | Some (Numeric n) \<Rightarrow> n \<noteq> 0)"

text \<open>
  A native error object, as Mongoose or the runtime raises it: its \<open>name\<close>, \<open>message\<close>,
  \<open>code\<close>, and the optional \<open>errors\<close> collection of a validation failure, keyed by path
  (an entry \<open>None\<close>: the value under that key is \<open>null\<close> or \<open>undefined\<close>).
\<close>

datatype error_obj =
  ErrorObj (err_name: string) (err_message: string) (err_code: "int option")
    (err_errors: "(string \<times> error_obj option) list option")

text \<open>
  Anything JavaScript can throw or reject with: \<open>undefined\<close>, \<open>null\<close>, another primitive
  (kept as its text), an \<open>Error\<close>, an \<open>APIError\<close>, or an array of thrown values.
\<close>

datatype thrown =
    ThrownUndefined
  | ThrownNull
  | ThrownPrimitive string
  | ThrownError error_obj
  | ThrownAPIError api_error
  | ThrownArray "thrown list"

definition TypeError :: "string \<Rightarrow> thrown" where
  "TypeError msg = ThrownError (ErrorObj ''TypeError'' msg None None)"

text \<open>Collects the results of \<open>xs.map(f)\<close> when \<open>f\<close> may throw: the first throw wins.\<close>

fun collect :: "(thrown + 'a) list \<Rightarrow> thrown + 'a list" where
  "collect [] = Inr []"
| "collect (Inl e # rs) = Inl e"
| "collect (Inr x # rs) = (case collect rs of Inl e \<Rightarrow> Inl e | Inr xs \<Rightarrow> Inr (x # xs))"

section \<open>Mongoose adapter helpers (db-adapters/Mongoose/lib.ts)\<close>

subsection \<open>Filter constraints\<close>

text \<open>
  \<open>FieldConstraint | Predicate\<close> is a union discriminated by \<open>operator\<close>: a Predicate has
  operator \<open>and\<close> or \<open>or\<close>, no field, and a list of constraints as its value; a
  FieldConstraint has a field, any other operator name, and a scalar or a list of scalars
  as its value.
\<close>

datatype pred_op = And | Or

fun pred_op_name :: "pred_op \<Rightarrow> string" where
  "pred_op_name And = ''and''"
| "pred_op_name Or = ''or''"

datatype scalar = Num int | Str string | Bool bool

datatype fvalue = One scalar | Many "scalar list"

datatype constraint =
    FieldConstraint (field: string) (operator: string) (fval: fvalue)
  | Predicate pred_op "constraint list"

fun scalar_val :: "scalar \<Rightarrow> jsval" where
  "scalar_val (Num n) = JNum n"
| "scalar_val (Str s) = JStr s"
| "scalar_val (Bool b) = JBool b"

fun fvalue_val :: "fvalue \<Rightarrow> jsval" where
  "fvalue_val (One s) = scalar_val s"
| "fvalue_val (Many ss) = JArr (map scalar_val ss)"

text \<open>
  What \<open>toMongoCriteria\<close> returns when it is handed a scalar instead of a constraint (every
  property read on a primitive gives \<open>undefined\<close>, so the default branch builds
  \<open>{[undefined]: {["$" + undefined]: undefined}}\<close>).
\<close>

definition criteria_of_scalar :: jsval where
  "criteria_of_scalar = JObj [(''undefined'', JObj [(''$undefined'', JUndefined)])]"

text \<open>
  The and/or branch reads \<open>value.length\<close> and \<open>value.map\<close>. On a Predicate the value is the
  constraint list. A FieldConstraint never carries these operators by its type; were one
  built anyway, JavaScript would evaluate the same branch on its scalar value, which is
  what \<open>and_or_on_field_value\<close> spells out: a number or boolean has no length, a string has a
  length but no \<open>map\<close>, and the elements of a list are scalars.
\<close>

fun and_or_on_field_value :: "string \<Rightarrow> fvalue \<Rightarrow> thrown + jsval" where
  "and_or_on_field_value mongoOperator (One (Num n)) = Inr (JObj [])"
| "and_or_on_field_value mongoOperator (One (Bool b)) = Inr (JObj [])"
| "and_or_on_field_value mongoOperator (One (Str s)) =
     (if s = [] then Inr (JObj [])
      else Inl (TypeError ''constraintOrPredicate.value.map is not a function''))"
| "and_or_on_field_value mongoOperator (Many ss) =
     (if ss = [] then Inr (JObj [])
      else Inr (JObj [(mongoOperator, JArr (map (\<lambda>s. criteria_of_scalar) ss))]))"

fun toMongoCriteria :: "constraint \<Rightarrow> thrown + jsval" where
  "toMongoCriteria (Predicate op vs) =
     (let mongoOperator = ''$'' @ (if pred_op_name op = ''neq'' then ''ne'' else pred_op_name op)
      in if vs = [] then Inr (JObj [])
         else (case collect (map toMongoCriteria vs) of
                 Inl e \<Rightarrow> Inl e
               | Inr cs \<Rightarrow> Inr (JObj [(mongoOperator, JArr cs)])))"
| "toMongoCriteria (FieldConstraint f op v) =
     (let mongoOperator = ''$'' @ (if op = ''neq'' then ''ne'' else op);
          mongoField = (if f = ''id'' then ''_id'' else f)
      in if op = ''and'' \<or> op = ''or'' then and_or_on_field_value mongoOperator v
         else if op = ''eq'' then Inr (JObj [(mongoField, fvalue_val v)])
         else Inr (JObj [(mongoField, JObj [(mongoOperator, fvalue_val v)])]))"

subsection \<open>errorHandler\<close>

text \<open>
  \<open>errorHandler(err): never\<close> always throws; the model returns the value it throws. Its
  argument is whatever the database operation rejected with. The factories
  \<open>Errors.invalidFieldValue\<close>, \<open>Errors.uniqueViolation\<close> and the coercion
  \<open>APIError.fromError\<close> are not among the sources and are parameters. The association list
  of \<open>err.errors\<close> is in the order \<open>Object.keys\<close> enumerates it; an \<open>errors\<close> object is truthy
  even when it has no key.
\<close>





section \<open>HTTP strategy base (buildRequestObject)\<close>

text \<open>The identifier slot of a Request: absent (null or undefined), one id, or a list.\<close>

datatype id_or_ids = NoId | Id string | Ids "string list"

fun truthy_ids :: "id_or_ids \<Rightarrow> bool" where
  "truthy_ids NoId = False"
| "truthy_ids (Id s) = (s \<noteq> [])"
| "truthy_ids (Ids xs) = True"

text \<open>Primary or included data of a document: absent, null, one resource, a collection.\<close>

datatype doc_data = Absent | Null | Single jsval | Collection "jsval list"

record request =
  queryParams :: jsval
  rawQueryString :: "string option"
  allowLabel :: bool
  idOrIds :: id_or_ids
  rtype :: "string option"
  aboutRelationship :: bool
  relationship :: "string option"
  uri :: string
  req_method :: string
  accepts :: "string option"
  contentType :: "string option"
  hasBody :: bool
  body :: jsval
  req_primary :: doc_data

record config =
  tunnel :: bool
  handleContentNegotiation :: bool
  host :: "string option"

text \<open>
  The \<open>IncomingMessage\<close>: its url, method, headers, whether the connection is encrypted,
  and whether it is still a readable stream (\<open>isReadableStream\<close>).
\<close>

record incoming =
  im_url :: string
  im_method :: string
  im_headers :: "string \<rightharpoonup> string"
  im_encrypted :: bool
  im_readable :: bool

record route_params =
  p_id :: "string option"
  p_idOrLabel :: "string option"
  p_type :: "string option"
  p_relationship :: "string option"
  p_related :: "string option"

record body_options =
  opt_encoding :: string
  opt_limit :: string
  opt_length :: "string option"

text \<open>
  What the function calls outside the sources: \<open>qs.parse\<close>, \<open>contentType.parse\<close> (giving
  the charset parameter, or throwing), \<open>getRawBody\<close> (giving the body text or an error to
  its callback), \<open>JSON.parse\<close> (\<open>None\<close> when it throws) and the builtin \<open>isNaN\<close> on a
  header text.
\<close>

record runtime =
  qs_parse :: "string \<Rightarrow> jsval"
  contentType_parse :: "incoming \<Rightarrow> thrown + string option"
  getRawBody :: "incoming \<Rightarrow> body_options \<Rightarrow> thrown + string"
  JSON_parse :: "string \<Rightarrow> jsval option"
  isNaN_text :: "string \<Rightarrow> bool"

definition hasBody_of :: "runtime \<Rightarrow> incoming \<Rightarrow> bool" where
  "hasBody_of rt req =
     (im_headers req ''transfer-encoding'' \<noteq> None \<or>
      \<not> (case im_headers req ''content-length'' of None \<Rightarrow> True | Some l \<Rightarrow> isNaN_text rt l))"

text \<open>\<open>req.url.indexOf("?")\<close> and \<open>req.url.substr(queryStartIndex + 1)\<close>.\<close>

definition rawQuery_of :: "string \<Rightarrow> string option" where
  "rawQuery_of url =
     (if CHR ''?'' \<in> set url then Some (tl (dropWhile (\<lambda>c. c \<noteq> CHR ''?'') url)) else None)"

text \<open>\<open>(hasQuery && qs.parse(rawQueryString)) || {}\<close>.\<close>

definition parsed_or_empty :: "runtime \<Rightarrow> string option \<Rightarrow> jsval" where
  "parsed_or_empty rt raw =
     (case raw of
        None \<Rightarrow> JObj []
      | Some r \<Rightarrow> if truthy (qs_parse rt r) then qs_parse rt r else JObj [])"

text \<open>The Request as filled in before the tunnelling check.\<close>

definition initial_request ::
  "config \<Rightarrow> runtime \<Rightarrow> incoming \<Rightarrow> string option \<Rightarrow> string option \<Rightarrow> route_params \<Rightarrow>
   jsval option \<Rightarrow> request" where
  "initial_request cfg rt req protocol fallbackHost params parsedQuery =
     (let rawQS = rawQuery_of (im_url req);
          protocol' = (if truthy_str protocol then str_of protocol
                       else if im_encrypted req then ''https'' else ''http'');
          host' = or_str (host cfg) fallbackHost
      in \<lparr> queryParams =
             (case parsedQuery of
                Some q \<Rightarrow> if truthy q then q else parsed_or_empty rt rawQS
              | None \<Rightarrow> parsed_or_empty rt rawQS),
           rawQueryString = (if truthy_str rawQS then rawQS else None),
           allowLabel = (truthy_str (p_idOrLabel params) \<and> \<not> truthy_str (p_id params)),
           idOrIds = (case or_str (p_id params) (p_idOrLabel params) of
                        None \<Rightarrow> NoId | Some i \<Rightarrow> Id i),
           rtype = p_type params,
           aboutRelationship = truthy_str (p_relationship params),
           relationship = or_str (p_related params) (p_relationship params),
           uri = protocol' @ ''://'' @ str_of host' @ im_url req,
           req_method = toLowerCase (im_method req),
           accepts = im_headers req ''accept'',
           contentType = None,
           hasBody = False,
           body = JUndefined,
           req_primary = Absent \<rparr>)"

text \<open>
  The tunnelling check. It leaves the Request (with its method rewritten when the tunnel
  applies) and, when it called \<open>reject\<close>, the error the promise is rejected with. The code
  does not return after \<open>reject\<close>: the rest of the executor still runs, but a promise
  settles once, so a later \<open>resolve\<close>, \<open>reject\<close> or throw changes nothing.
\<close>

definition tunnel_method :: "config \<Rightarrow> incoming \<Rightarrow> request \<Rightarrow> request \<times> thrown option" where
  "tunnel_method cfg req it =
     (let requestedMethod =
            toLowerCase (case im_headers req ''x-http-method-override'' of
                           None \<Rightarrow> [] | Some h \<Rightarrow> h)
      in if tunnel cfg \<and> req_method it = ''post'' \<and> requestedMethod = ''patch''
         then (it\<lparr>req_method := ''patch''\<rparr>, None)
         else if requestedMethod \<noteq> []
         then (it, Some (ThrownAPIError
                 (APIError (Some 400) None
                    (''Cannot tunnel to the method '' @ [CHR 0x22] @
                     toUpperCase requestedMethod @ [CHR 0x22] @ ''.''))))
         else (it, None))"

text \<open>The rest of the executor: reading and parsing the body, and what it settles with.\<close>

definition read_body :: "runtime \<Rightarrow> incoming \<Rightarrow> request \<Rightarrow> thrown + request" where
  "read_body rt req it =
     (if hasBody_of rt req then
        if \<not> im_readable req
        then Inl (ThrownAPIError (APIError (Some 500) None
               ''Request body could not be parsed. Make sure other no other middleware has already parsed the request body.''))
        else
          let it1 = it\<lparr>contentType := im_headers req ''content-type''\<rparr> in
          if \<not> truthy_str (contentType it1)
          then Inl (TypeError ''typeParsed.parameters'')
          else (case contentType_parse rt req of
                  Inl e \<Rightarrow> Inl e
                | Inr charset \<Rightarrow>
                    let len = im_headers req ''content-length'';
                        bodyParserOptions =
                          \<lparr> opt_encoding = (if truthy_str charset then str_of charset else ''utf8''),
                            opt_limit = ''1mb'',
                            opt_length =
                              (case len of
                                 None \<Rightarrow> None
                               | Some l \<Rightarrow> if l \<noteq> [] \<and> \<not> isNaN_text rt l then Some l else None) \<rparr>
                    in (case getRawBody rt req bodyParserOptions of
                          Inl err \<Rightarrow> Inl err
                        | Inr string \<Rightarrow>
                            if string = [] then Inr (it1\<lparr>hasBody := False, body := JStr []\<rparr>)
                            else (case JSON_parse rt string of
                                    Some v \<Rightarrow> Inr (it1\<lparr>hasBody := True, body := v\<rparr>)
                                  | None \<Rightarrow> Inl (ThrownAPIError
                                      (APIError (Some 400) None ''Request contains invalid JSON.'')))))
      else Inr (it\<lparr>hasBody := False, body := JUndefined\<rparr>))"

text \<open>
  \<open>buildRequestObject\<close>: the value its promise settles with, \<open>Inl\<close> a rejection and \<open>Inr\<close>
  the built Request. The first settling wins.
\<close>

definition buildRequestObject ::
  "config \<Rightarrow> runtime \<Rightarrow> incoming \<Rightarrow> string option \<Rightarrow> string option \<Rightarrow> route_params \<Rightarrow>
   jsval option \<Rightarrow> thrown + request" where
  "buildRequestObject cfg rt req protocol fallbackHost params parsedQuery =
     (let it0 = initial_request cfg rt req protocol fallbackHost params parsedQuery;
          (it, rejected) = tunnel_method cfg req it0;
          later = read_body rt req it
      in case rejected of Some e \<Rightarrow> Inl e | None \<Rightarrow> later)"

section \<open>API controller (handle)\<close>

subsection \<open>Documents, Results and responses\<close>

record document_data =
  primary :: doc_data
  included :: doc_data
  errors :: "api_error list option"

record document = document_data +
  reqURI :: string
  urlTemplates :: jsval

text \<open>
  \<open>makeDoc = (data) => new Document({ reqURI: request.uri, urlTemplates: templates, ...data })\<close>.
\<close>

definition make_document :: "string \<Rightarrow> jsval \<Rightarrow> document_data \<Rightarrow> document" where
  "make_document u templates data =
     \<lparr> primary = primary data, included = included data, errors = errors data,
       reqURI = u, urlTemplates = templates \<rparr>"

text \<open>A Result: optional Document, optional status, header overrides (none: the empty map).\<close>

record result =
  document :: "document option"
  status :: "jsnum option"
  headers :: "string \<rightharpoonup> string"

text \<open>
  The HTTP response. \<open>Document.toString\<close> is not among the sources: the body is
  represented by the document it serialises (\<open>None\<close>: no body).
\<close>

record http_response =
  http_status :: "jsnum option"
  http_headers :: "string \<rightharpoonup> string"
  http_body :: "document option"

text \<open>\<open>errStatuses[0]\<close>: \<open>undefined\<close> on the empty array.\<close>

definition pickStatus :: "jsnum list \<Rightarrow> jsnum option" where
  "pickStatus errStatuses = (case errStatuses of [] \<Rightarrow> None | s # rest \<Rightarrow> Some s)"

text \<open>\<open>Array.isArray(errors) ? errors : [errors]\<close>.\<close>

definition as_array :: "thrown \<Rightarrow> thrown list" where
  "as_array errs = (case errs of ThrownArray xs \<Rightarrow> xs | _ \<Rightarrow> [errs])"

definition makeResultFromErrors ::
  "(thrown \<Rightarrow> api_error) \<Rightarrow> (document_data \<Rightarrow> document) \<Rightarrow> thrown \<Rightarrow> result" where
  "makeResultFromErrors fromError makeDoc errs =
     (let errorsArray = map fromError (as_array errs);
          st = pickStatus (map (\<lambda>v. js_Number (err_status v)) errorsArray)
      in \<lparr> document = Some (makeDoc \<lparr> primary = Absent, included = Absent,
                                       errors = Some errorsArray \<rparr>),
           status = st,
           headers = Map.empty \<rparr>)"

definition resultToHTTPResponse :: "result \<Rightarrow> string option \<Rightarrow> http_response" where
  "resultToHTTPResponse response negotiatedMediaType =
     (let hdrs =
            [''content-type'' \<mapsto>
               (if truthy_str negotiatedMediaType then str_of negotiatedMediaType
                else ''application/vnd.api+json''),
             ''vary'' \<mapsto> ''Accept''] ++ headers response;
          st =
            (if truthy_num (status response)
             then status response
             else (case document response of
                     Some doc \<Rightarrow>
                       (case errors doc of
                          Some es \<Rightarrow> pickStatus (map (\<lambda>it. js_Number (err_status it)) es)
                        | None \<Rightarrow> Some (Numeric 200))
                   | None \<Rightarrow> Some (Numeric 204)))
      in \<lparr> http_status = st, http_headers = hdrs, http_body = document response \<rparr>)"

subsection \<open>The collaborators of the pipeline\<close>

text \<open>
  A Query carries its payload and the two callbacks the dispatch uses: \<open>returning\<close> and
  the optional \<open>catch\<close>.
\<close>

record query =
  payload :: jsval
  returning :: "jsval \<Rightarrow> thrown + result"
  catch :: "(thrown \<Rightarrow> thrown + result) option"

text \<open>
  What a call that is to return a promise does: it throws before returning one, or it
  returns a promise that rejects, or one that resolves. At an \<open>await\<close> inside the try block
  the first two are the same throw; they differ for \<open>adapter.doQuery(query).then(...)\<close>, where
  only a rejection reaches the handlers given to \<open>then\<close>.
\<close>

datatype 'a settled = Threw thrown | Rejected thrown | Resolved 'a

text \<open>\<open>doQuery\<close> is handed \<open>undefined\<close> (\<open>None\<close>) when no query was built.\<close>

record adapter =
  unaryFilterOperators :: "string list"
  binaryFilterOperators :: "string list"
  doQuery :: "query option \<Rightarrow> jsval settled"

datatype transform_mode = BeforeSave | BeforeRender

text \<open>
  The steps, the registry and the hooks are not among the sources: each is a parameter,
  a function from its arguments to what it returns or throws (a rejected promise is a
  throw at the \<open>await\<close>). The framework request and response, the registry and \<open>makeDoc\<close>
  are fixed for one call of \<open>handle\<close> and are not listed among the arguments.
\<close>

record env =
  hasType :: "string option \<Rightarrow> bool"
  registry_urlTemplates :: jsval
  dbAdapter :: "string option \<Rightarrow> adapter"
  checkMethod :: "request \<Rightarrow> thrown + unit"
  checkBodyExistence :: "request \<Rightarrow> thrown + unit"
  negotiateContentType :: "string option \<Rightarrow> string list \<Rightarrow> thrown + string"
  labelToIds :: "string option \<Rightarrow> id_or_ids \<Rightarrow> thrown + id_or_ids"
  parseQueryParams :: "jsval \<Rightarrow> thrown + (string \<times> jsval) list"
  filterParamParser ::
    "string list \<Rightarrow> string list \<Rightarrow> string option \<Rightarrow> jsval \<Rightarrow> thrown + jsval"
  validateContentType :: "request \<Rightarrow> string list \<Rightarrow> thrown + unit"
  validateRequestDocument :: "jsval \<Rightarrow> thrown + unit"
  parseRequestPrimary :: "jsval \<Rightarrow> bool \<Rightarrow> thrown + doc_data"
  validateRequestResources :: "string option \<Rightarrow> doc_data \<Rightarrow> thrown + unit"
  applyTransform :: "doc_data \<Rightarrow> transform_mode \<Rightarrow> request \<Rightarrow> thrown + doc_data"
  makeGET :: "request \<Rightarrow> thrown + query"
  makePOST :: "request \<Rightarrow> thrown + query"
  makePATCH :: "request \<Rightarrow> thrown + query"
  makeDELETE :: "request \<Rightarrow> thrown + query"
  fromError :: "thrown \<Rightarrow> api_error"

subsection \<open>Sequencing: throws, the negotiated type, and the calls made\<close>

text \<open>
  The calls \<open>handle\<close> makes to its collaborators, recorded in order, so that a claim that a
  collaborator is never invoked is a statement about this list.
\<close>

datatype stage =
    CheckMethod | CheckBodyExistence | NegotiateContentType | LabelToIds | DbAdapter
  | ParseQueryParams | FilterParamParser | ValidateContentType | ValidateRequestDocument
  | ParseRequestPrimary | ValidateRequestResources | ApplyTransform transform_mode
  | MakeQuery | QueryTransform | DoQuery | Returning | Catch

text \<open>
  The state of one call of \<open>handle\<close> that outlives a throw inside its \<open>try\<close> block: the
  calls made so far and the local variable \<open>contentType\<close>.
\<close>

record pstate =
  trace :: "stage list"
  negotiatedType :: "string option"

type_synonym 'a io = "pstate \<Rightarrow> (thrown + 'a) \<times> pstate"

definition ret :: "'a \<Rightarrow> 'a io" where
  "ret x = (\<lambda>s. (Inr x, s))"

definition throw :: "thrown \<Rightarrow> 'a io" where
  "throw e = (\<lambda>s. (Inl e, s))"

definition bind :: "'a io \<Rightarrow> ('a \<Rightarrow> 'b io) \<Rightarrow> 'b io" where
  "bind m f = (\<lambda>s. case m s of (Inl e, s') \<Rightarrow> (Inl e, s') | (Inr x, s') \<Rightarrow> f x s')"

text \<open>Calling a collaborator: the call is recorded, then its outcome is returned or thrown.\<close>

definition call :: "stage \<Rightarrow> thrown + 'a \<Rightarrow> 'a io" where
  "call st outcome = (\<lambda>s. (outcome, s\<lparr>trace := trace s @ [st]\<rparr>))"

definition set_contentType :: "string \<Rightarrow> unit io" where
  "set_contentType ct = (\<lambda>s. (Inr (), s\<lparr>negotiatedType := Some ct\<rparr>))"

text \<open>\<open>request.body.data\<close>: reading a property throws on \<open>null\<close> and \<open>undefined\<close>.\<close>

definition get_prop :: "jsval \<Rightarrow> string \<Rightarrow> thrown + jsval" where
  "get_prop v k =
     (case v of
        JUndefined \<Rightarrow> Inl (TypeError k)
      | JNull \<Rightarrow> Inl (TypeError k)
      | JObj kvs \<Rightarrow> Inr (case map_of kvs k of None \<Rightarrow> JUndefined | Some x \<Rightarrow> x)
      | _ \<Rightarrow> Inr JUndefined)"

subsection \<open>The stages of the try block\<close>

text \<open>Method check, body-existence check, content negotiation.\<close>

definition negotiate :: "env \<Rightarrow> request \<Rightarrow> unit io" where
  "negotiate env request =
     bind (call CheckMethod (checkMethod env request)) (\<lambda>_.
     bind (call CheckBodyExistence (checkBodyExistence env request)) (\<lambda>_.
     bind (call NegotiateContentType
             (negotiateContentType env (accepts request) [''application/vnd.api+json''])) (\<lambda>ct.
     set_contentType ct)))"

text \<open>The type check: a type that is not registered is a 404.\<close>

definition check_type :: "env \<Rightarrow> request \<Rightarrow> unit io" where
  "check_type env request =
     (if \<not> hasType env (rtype request)
      then throw (ThrownAPIError
                    (APIError (Some 404) None (str_of (rtype request) @ '' is not a valid type.'')))
      else ret ())"

text \<open>
  Label mapping. Returns \<open>supportsLabelMapping\<close>, \<open>mappedLabel\<close> and the request with its
  \<open>idOrIds\<close> replaced when the mapping applies.
\<close>

definition map_label :: "env \<Rightarrow> request \<Rightarrow> (bool \<times> id_or_ids \<times> request) io" where
  "map_label env request =
     (let supportsLabelMapping = (truthy_ids (idOrIds request) \<and> allowLabel request)
      in if supportsLabelMapping
         then bind (call LabelToIds (labelToIds env (rtype request) (idOrIds request)))
                (\<lambda>mappedLabel. ret (True, mappedLabel, request\<lparr>idOrIds := mappedLabel\<rparr>))
         else ret (False, NoId, request))"

text \<open>Query parameters: the adapter of the type is looked up for its operator lists.\<close>

definition parse_params :: "env \<Rightarrow> request \<Rightarrow> (adapter \<times> request) io" where
  "parse_params env request =
     bind (call DbAdapter (Inr (dbAdapter env (rtype request)))) (\<lambda>adapter.
     bind (call ParseQueryParams (parseQueryParams env (queryParams request))) (\<lambda>parsed.
     bind (call FilterParamParser
             (filterParamParser env (unaryFilterOperators adapter)
                (binaryFilterOperators adapter) (rawQueryString request)
                (queryParams request))) (\<lambda>flt.
     ret (adapter, request\<lparr>queryParams := JObj (AList.update ''filter'' flt parsed)\<rparr>))))"

text \<open>The body, when the request has one; \<open>supportedExt\<close> is the empty list.\<close>

definition parse_body :: "env \<Rightarrow> request \<Rightarrow> request io" where
  "parse_body env request =
     (if hasBody request then
        bind (call ValidateContentType (validateContentType env request [])) (\<lambda>_.
        bind (call ValidateRequestDocument (validateRequestDocument env (body request))) (\<lambda>_.
        bind (\<lambda>s. (get_prop (body request) ''data'', s)) (\<lambda>data.
        bind (call ParseRequestPrimary
                (parseRequestPrimary env data (aboutRelationship request))) (\<lambda>parsedPrimary.
        bind (if \<not> aboutRelationship request
              then call ValidateRequestResources
                     (validateRequestResources env (rtype request) parsedPrimary)
              else ret ()) (\<lambda>_.
        bind (call (ApplyTransform BeforeSave)
                (applyTransform env parsedPrimary BeforeSave request)) (\<lambda>p.
        ret (request\<lparr>req_primary := p\<rparr>)))))))
      else ret request)"

text \<open>
  Query construction; \<open>queryTransform\<close> defaults to the identity. A method that is none of
  the four leaves the query \<open>undefined\<close>.
\<close>

definition transformed ::
  "(query \<Rightarrow> thrown + query) option \<Rightarrow> thrown + query \<Rightarrow> query option io" where
  "transformed queryTransform made =
     bind (call MakeQuery made) (\<lambda>q.
       case queryTransform of
         None \<Rightarrow> ret (Some q)
       | Some t \<Rightarrow> bind (call QueryTransform (t q)) (\<lambda>q'. ret (Some q')))"

definition build_query ::
  "env \<Rightarrow> (query \<Rightarrow> thrown + query) option \<Rightarrow> request \<Rightarrow> query option io" where
  "build_query env queryTransform request =
     (if req_method request = ''get'' then transformed queryTransform (makeGET env request)
      else if req_method request = ''post'' then transformed queryTransform (makePOST env request)
      else if req_method request = ''patch'' then transformed queryTransform (makePATCH env request)
      else if req_method request = ''delete'' then transformed queryTransform (makeDELETE env request)
      else ret None)"

text \<open>
  Dispatch. A label that mapped to nothing gives the Result at once; otherwise
  \<open>adapter.doQuery(query)\<close> is called first (a throw of the call itself leaves the try
  block), then \<open>query.returning\<close> is read (a TypeError when no query was built), and the
  promise goes through \<open>query.returning\<close> when it resolves, or through \<open>query.catch\<close> (by
  default \<open>makeResultFromErrors\<close>) when it rejects.
\<close>

definition dispatch ::
  "env \<Rightarrow> (document_data \<Rightarrow> document) \<Rightarrow> adapter \<Rightarrow> bool \<Rightarrow> id_or_ids \<Rightarrow>
   query option \<Rightarrow> result io" where
  "dispatch env makeDoc adapter supportsLabelMapping mappedLabel qry =
     (let labelMappedToNothing =
            (supportsLabelMapping \<and> (mappedLabel = NoId \<or> mappedLabel = Ids []))
      in if labelMappedToNothing
         then ret \<lparr> document =
                      Some (makeDoc \<lparr> primary = (if truthy_ids mappedLabel then Collection []
                                                  else Null),
                                      included = Absent, errors = None \<rparr>),
                    status = None, headers = Map.empty \<rparr>
         else bind (call DoQuery
                      (case doQuery adapter qry of
                         Threw e \<Rightarrow> Inl e
                       | Rejected e \<Rightarrow> Inr (Inl e)
                       | Resolved raw \<Rightarrow> Inr (Inr raw))) (\<lambda>promise.
              case qry of
                None \<Rightarrow> throw (TypeError ''query.returning'')
              | Some q \<Rightarrow>
                  (case promise of
                     Inr raw \<Rightarrow> call Returning (returning q raw)
                   | Inl err \<Rightarrow>
                       (case catch q of
                          Some c \<Rightarrow> call Catch (c err)
                        | None \<Rightarrow> ret (makeResultFromErrors (fromError env) makeDoc err)))))"

text \<open>The \<open>beforeRender\<close> transforms, on the primary and then on the included data.\<close>

definition render :: "env \<Rightarrow> request \<Rightarrow> result \<Rightarrow> result io" where
  "render env request jsonAPIResult =
     (case document jsonAPIResult of
        None \<Rightarrow> ret jsonAPIResult
      | Some doc \<Rightarrow>
          bind (call (ApplyTransform BeforeRender)
                  (applyTransform env (primary doc) BeforeRender request)) (\<lambda>p.
          bind (call (ApplyTransform BeforeRender)
                  (applyTransform env (included doc) BeforeRender request)) (\<lambda>i.
          ret (jsonAPIResult\<lparr>document := Some (doc\<lparr>primary := p, included := i\<rparr>)\<rparr>))))"

text \<open>
  The stages between label mapping and dispatch: query parameters, body, query
  construction.
\<close>

definition prepare ::
  "env \<Rightarrow> (query \<Rightarrow> thrown + query) option \<Rightarrow> request \<Rightarrow>
   (adapter \<times> request \<times> query option) io" where
  "prepare env queryTransform request1 =
     bind (parse_params env request1) (\<lambda>(adapter, request2).
     bind (parse_body env request2) (\<lambda>request3.
     bind (build_query env queryTransform request3) (\<lambda>qry.
     ret (adapter, request3, qry))))"

text \<open>The whole try block.\<close>

definition handle_try ::
  "env \<Rightarrow> (document_data \<Rightarrow> document) \<Rightarrow> request \<Rightarrow> (query \<Rightarrow> thrown + query) option \<Rightarrow>
   result io" where
  "handle_try env makeDoc request queryTransform =
     bind (negotiate env request) (\<lambda>_.
     bind (check_type env request) (\<lambda>_.
     bind (map_label env request) (\<lambda>(supportsLabelMapping, mappedLabel, request1).
     bind (prepare env queryTransform request1) (\<lambda>(adapter, request3, qry).
     bind (dispatch env makeDoc adapter supportsLabelMapping mappedLabel qry) (\<lambda>jsonAPIResult.
     render env request3 jsonAPIResult)))))"

subsection \<open>The catch block and handle\<close>

text \<open>
  \<open>errorsArr.forEach(err => logger.info(..., err, err.stack))\<close>: reading \<open>err.stack\<close> throws
  a TypeError when an element is \<open>null\<close> or \<open>undefined\<close>.
\<close>

fun log_errors :: "thrown list \<Rightarrow> thrown + unit" where
  "log_errors [] = Inr ()"
| "log_errors (err # rest) =
     (if err = ThrownUndefined \<or> err = ThrownNull then Inl (TypeError ''err.stack'')
      else log_errors rest)"

definition handle_catch ::
  "env \<Rightarrow> (document_data \<Rightarrow> document) \<Rightarrow> thrown \<Rightarrow> thrown + result" where
  "handle_catch env makeDoc err =
     (let jsonAPIResult = makeResultFromErrors (fromError env) makeDoc err;
          errorsArr = as_array err
      in case log_errors errorsArr of
           Inl e \<Rightarrow> Inl e
         | Inr _ \<Rightarrow> Inr jsonAPIResult)"

text \<open>
  The try block and the catch block together: the Result in \<open>jsonAPIResult\<close> when the
  function reaches its last statement (\<open>Inl\<close>: the catch block itself threw), and the
  state then.
\<close>

definition handle_result ::
  "env \<Rightarrow> request \<Rightarrow> (query \<Rightarrow> thrown + query) option \<Rightarrow> (thrown + result) \<times> pstate" where
  "handle_result env request queryTransform =
     (let makeDoc = make_document (uri request) (registry_urlTemplates env)
      in case handle_try env makeDoc request queryTransform
                \<lparr> trace = [], negotiatedType = None \<rparr> of
           (Inr jsonAPIResult, s) \<Rightarrow> (Inr jsonAPIResult, s)
         | (Inl err, s) \<Rightarrow> (handle_catch env makeDoc err, s))"

text \<open>
  \<open>handle\<close>: what its promise settles with (\<open>Inl\<close>: it rejects; \<open>Inr\<close>: the HTTP response
  \<open>resultToHTTPResponse(jsonAPIResult, contentType)\<close>), and the calls it made.
\<close>

definition handle ::
  "env \<Rightarrow> request \<Rightarrow> (query \<Rightarrow> thrown + query) option \<Rightarrow>
   (thrown + http_response) \<times> stage list" where
  "handle env request queryTransform =
     (case handle_result env request queryTransform of
        (Inl e, s) \<Rightarrow> (Inl e, trace s)
      | (Inr jsonAPIResult, s) \<Rightarrow>
          (Inr (resultToHTTPResponse jsonAPIResult (negotiatedType s)), trace s))"

section \<open>Reasoning about the calls made\<close>

text \<open>
  \<open>emits P m\<close>: every call \<open>m\<close> records satisfies \<open>P\<close>. \<open>keeps m\<close>: \<open>m\<close> leaves the variable
  \<open>contentType\<close> as it found it.
\<close>

definition emits :: "(stage \<Rightarrow> bool) \<Rightarrow> 'a io \<Rightarrow> bool" where
  "emits P m = (\<forall>s. \<exists>tr. trace (snd (m s)) = trace s @ tr \<and> list_all P tr)"

definition keeps :: "'a io \<Rightarrow> bool" where
  "keeps m = (\<forall>s. negotiatedType (snd (m s)) = negotiatedType s)"

section \<open>Sample collaborators\<close>

text \<open>
  A registry with the one type \<open>people\<close>, steps and hooks that accept everything, an
  adapter that returns one resource, and a coercion that keeps an APIError and turns
  anything else into a generic 500. Concrete instances of the theorems are evaluated on
  these.
\<close>

definition sample_fromError :: "thrown \<Rightarrow> api_error" where
  "sample_fromError e =
     (case e of
        ThrownAPIError a \<Rightarrow> a
      | _ \<Rightarrow> APIError (Some 500) None ''An unknown error occurred while trying to process this request.'')"

definition sample_result :: result where
  "sample_result =
     \<lparr> document = Some (make_document ''http://localhost/people'' JNull
                          \<lparr> primary = Collection [JStr ''ann''], included = Absent,
                            errors = None \<rparr>),
       status = None, headers = Map.empty \<rparr>"

definition sample_query :: query where
  "sample_query = \<lparr> payload = JNull, returning = (\<lambda>raw. Inr sample_result), catch = None \<rparr>"

definition sample_adapter :: adapter where
  "sample_adapter =
     \<lparr> unaryFilterOperators = [''and'', ''or''],
       binaryFilterOperators = [''eq'', ''neq''],
       doQuery = (\<lambda>q. Resolved (JArr [JStr ''ann''])) \<rparr>"

definition sample_env :: env where
  "sample_env =
     \<lparr> hasType = (\<lambda>t. t = Some ''people''),
       registry_urlTemplates = JNull,
       dbAdapter = (\<lambda>t. sample_adapter),
       checkMethod = (\<lambda>r. Inr ()),
       checkBodyExistence = (\<lambda>r. Inr ()),
       negotiateContentType = (\<lambda>a supported. Inr ''application/vnd.api+json''),
       labelToIds = (\<lambda>t i. Inr (Ids [])),
       parseQueryParams = (\<lambda>q. Inr []),
       filterParamParser = (\<lambda>u b raw q. Inr JUndefined),
       validateContentType = (\<lambda>r ext. Inr ()),
       validateRequestDocument = (\<lambda>b. Inr ()),
       parseRequestPrimary = (\<lambda>d rel. Inr (Single d)),
       validateRequestResources = (\<lambda>t d. Inr ()),
       applyTransform = (\<lambda>d m r. Inr d),
       makeGET = (\<lambda>r. Inr sample_query),
       makePOST = (\<lambda>r. Inr sample_query),
       makePATCH = (\<lambda>r. Inr sample_query),
       makeDELETE = (\<lambda>r. Inr sample_query),
       fromError = sample_fromError \<rparr>"

text \<open>\<open>GET /people\<close>, and \<open>GET /people/me\<close> where \<open>me\<close> is a label.\<close>

definition sample_request :: request where
  "sample_request =
     \<lparr> queryParams = JObj [], rawQueryString = None, allowLabel = False, idOrIds = NoId,
       rtype = Some ''people'', aboutRelationship = False, relationship = None,
       uri = ''http://localhost/people'', req_method = ''get'', accepts = None,
       contentType = None, hasBody = False, body = JUndefined, req_primary = Absent \<rparr>"

definition label_request :: request where
  "label_request = sample_request\<lparr>allowLabel := True, idOrIds := Id ''me''\<rparr>"

text \<open>\<open>POST /people\<close> with a body.\<close>

definition post_request :: request where
  "post_request =
     sample_request\<lparr>req_method := ''post'', hasBody := True,
                    body := JObj [(''data'', JObj [(''type'', JStr ''people'')])]\<rparr>"

text \<open>
  A runtime whose \<open>isNaN\<close> accepts digit strings, an incoming \<open>POST /people\<close> without a
  body that asks to be tunnelled to PATCH, and its route parameters.
\<close>

definition sample_runtime :: runtime where
  "sample_runtime =
     \<lparr> qs_parse = (\<lambda>q. JObj []),
       contentType_parse = (\<lambda>r. Inr None),
       getRawBody = (\<lambda>r opts. Inr []),
       JSON_parse = (\<lambda>t. None),
       isNaN_text = (\<lambda>t. \<not> list_all (\<lambda>c. c \<in> set ''0123456789'') t) \<rparr>"

definition sample_incoming :: incoming where
  "sample_incoming =
     \<lparr> im_url = ''/people'', im_method = ''POST'',
       im_headers = [''x-http-method-override'' \<mapsto> ''PATCH''],
       im_encrypted = False, im_readable = True \<rparr>"

definition sample_params :: route_params where
  "sample_params =
     \<lparr> p_id = None, p_idOrLabel = None, p_type = Some ''people'', p_relationship = None,
       p_related = None \<rparr>"

section \<open>Supporting lemmas\<close>

lemmas io_defs = bind_def call_def ret_def throw_def set_contentType_def

lemmas stage_defs = negotiate_def check_type_def map_label_def prepare_def parse_params_def
  parse_body_def build_query_def transformed_def dispatch_def render_def

lemmas sample_defs = sample_env_def sample_adapter_def sample_query_def sample_result_def
  sample_request_def label_request_def post_request_def sample_fromError_def

lemma emits_ret: "emits P (ret x)"
  by (simp add: emits_def ret_def)

lemma emits_throw: "emits P (throw e)"
  by (simp add: emits_def throw_def)

lemma emits_pure: "emits P (\<lambda>s. (r, s))"
  by (simp add: emits_def)

lemma emits_call: "P st \<Longrightarrow> emits P (call st r)"
  by (simp add: emits_def call_def)

lemma emits_bind_post:
  assumes m: "emits P m"
    and post: "\<And>s x s'. m s = (Inr x, s') \<Longrightarrow> Q x"
    and f: "\<And>x. Q x \<Longrightarrow> emits P (f x)"
  shows "emits P (bind m f)"
  unfolding emits_def
proof
  fix s
  obtain r s' where ms: "m s = (r, s')" by (cases "m s")
  from m obtain tr where tr: "trace s' = trace s @ tr" "list_all P tr"
    unfolding emits_def using ms by (metis snd_conv)
  show "\<exists>tr. trace (snd (bind m f s)) = trace s @ tr \<and> list_all P tr"
  proof (cases r)
    case (Inl e)
    then show ?thesis using ms tr by (auto simp: bind_def)
  next
    case (Inr x)
    then have "Q x" using post ms by simp
    then have "emits P (f x)" by (rule f)
    then obtain tr' where tr': "trace (snd (f x s')) = trace s' @ tr'" "list_all P tr'"
      unfolding emits_def by blast
    have "trace (snd (bind m f s)) = trace s @ (tr @ tr')"
      using ms Inr tr tr' by (simp add: bind_def)
    moreover have "list_all P (tr @ tr')" using tr tr' by simp
    ultimately show ?thesis by blast
  qed
qed

lemma emits_bind: "emits P m \<Longrightarrow> (\<And>x. emits P (f x)) \<Longrightarrow> emits P (bind m f)"
  by (rule emits_bind_post [where Q = "\<lambda>x. True"]) simp_all

lemma keeps_ret: "keeps (ret x)"
  by (simp add: keeps_def ret_def)

lemma keeps_throw: "keeps (throw e)"
  by (simp add: keeps_def throw_def)

lemma keeps_pure: "keeps (\<lambda>s. (r, s))"
  by (simp add: keeps_def)

lemma keeps_call: "keeps (call st r)"
  by (simp add: keeps_def call_def)

lemma keeps_bind: "keeps m \<Longrightarrow> (\<And>x. keeps (f x)) \<Longrightarrow> keeps (bind m f)"
  unfolding keeps_def bind_def
  by (auto split: prod.splits sum.splits) (metis snd_conv)+

lemmas emits_intros = emits_bind emits_ret emits_throw emits_pure emits_call
lemmas keeps_intros = keeps_bind keeps_ret keeps_throw keeps_pure keeps_call

lemma negotiate_emits: "emits (\<lambda>st. st \<noteq> DoQuery) (negotiate env request)"
  unfolding negotiate_def
  by (intro emits_intros) (simp_all add: emits_def set_contentType_def)

lemma check_type_emits: "emits P (check_type env request)"
  unfolding check_type_def by (simp add: emits_intros)

lemma check_type_keeps: "keeps (check_type env request)"
  unfolding check_type_def by (simp add: keeps_intros)

lemma map_label_emits: "emits (\<lambda>st. st \<noteq> DoQuery) (map_label env request)"
  unfolding map_label_def Let_def by (auto intro!: emits_intros)

lemma map_label_keeps: "keeps (map_label env request)"
  unfolding map_label_def Let_def by (auto intro!: keeps_intros)

lemma parse_params_emits: "emits (\<lambda>st. st \<noteq> DoQuery) (parse_params env request)"
  unfolding parse_params_def by (auto intro!: emits_intros)

lemma parse_params_keeps: "keeps (parse_params env request)"
  unfolding parse_params_def by (auto intro!: keeps_intros)

lemma parse_body_emits: "emits (\<lambda>st. st \<noteq> DoQuery) (parse_body env request)"
  unfolding parse_body_def by (auto intro!: emits_intros)

lemma parse_body_keeps: "keeps (parse_body env request)"
  unfolding parse_body_def by (auto intro!: keeps_intros)

lemma transformed_emits: "emits (\<lambda>st. st \<noteq> DoQuery) (transformed qt made)"
  unfolding transformed_def by (auto intro!: emits_intros split: option.splits)

lemma transformed_keeps: "keeps (transformed qt made)"
  unfolding transformed_def by (auto intro!: keeps_intros split: option.splits)

lemma build_query_emits: "emits (\<lambda>st. st \<noteq> DoQuery) (build_query env qt request)"
  unfolding build_query_def by (simp add: transformed_emits emits_ret)

lemma build_query_keeps: "keeps (build_query env qt request)"
  unfolding build_query_def by (simp add: transformed_keeps keeps_ret)

lemma prepare_emits: "emits (\<lambda>st. st \<noteq> DoQuery) (prepare env qt request)"
  unfolding prepare_def
  by (auto intro!: emits_intros parse_params_emits parse_body_emits build_query_emits)

lemma prepare_keeps: "keeps (prepare env qt request)"
  unfolding prepare_def
  by (auto intro!: keeps_intros parse_params_keeps parse_body_keeps build_query_keeps)

lemma render_emits: "emits (\<lambda>st. st \<noteq> DoQuery) (render env request r)"
  unfolding render_def by (auto intro!: emits_intros split: option.splits)

lemma render_keeps: "keeps (render env request r)"
  unfolding render_def by (auto intro!: keeps_intros split: option.splits)

lemma dispatch_keeps: "keeps (dispatch env mk ad su ml q)"
  unfolding dispatch_def Let_def keeps_def
  by (auto simp: io_defs split: option.splits sum.splits prod.splits settled.splits)

lemma dispatch_nothing:
  "su \<Longrightarrow> ml = NoId \<or> ml = Ids [] \<Longrightarrow>
   dispatch env mk ad su ml q =
     ret \<lparr> document = Some (mk \<lparr> primary = (if ml = Ids [] then Collection [] else Null),
                                  included = Absent, errors = None \<rparr>),
           status = None, headers = Map.empty \<rparr>"
  unfolding dispatch_def Let_def by auto

lemma bind_keeps_tail:
  "(\<And>x. keeps (f x)) \<Longrightarrow> negotiatedType (snd (bind m f s)) = negotiatedType (snd (m s))"
  unfolding keeps_def bind_def
  by (auto split: prod.splits sum.splits)

lemma after_negotiate_keeps:
  "keeps (bind (check_type env request) (\<lambda>_.
     bind (map_label env request) (\<lambda>(supportsLabelMapping, mappedLabel, request1).
     bind (prepare env queryTransform request1) (\<lambda>(adapter, request3, qry).
     bind (dispatch env makeDoc adapter supportsLabelMapping mappedLabel qry) (\<lambda>jsonAPIResult.
     render env request3 jsonAPIResult)))))"
  by (auto intro!: keeps_intros check_type_keeps map_label_keeps prepare_keeps dispatch_keeps
        render_keeps)

lemma negotiate_type:
  "negotiatedType (snd (negotiate env request s)) =
     (case checkMethod env request of
        Inl e \<Rightarrow> negotiatedType s
      | Inr u \<Rightarrow>
          (case checkBodyExistence env request of
             Inl e \<Rightarrow> negotiatedType s
           | Inr u \<Rightarrow>
               (case negotiateContentType env (accepts request) [''application/vnd.api+json''] of
                  Inl e \<Rightarrow> negotiatedType s
                | Inr ct \<Rightarrow> Some ct)))"
  by (simp add: negotiate_def io_defs split: sum.splits)

lemma handle_try_type:
  "negotiatedType (snd (handle_try env makeDoc request queryTransform s)) =
     negotiatedType (snd (negotiate env request s))"
  unfolding handle_try_def
  by (rule bind_keeps_tail) (rule after_negotiate_keeps)

lemma handle_result_state:
  "snd (handle_result env request qt) =
     snd (handle_try env (make_document (uri request) (registry_urlTemplates env)) request qt
            \<lparr> trace = [], negotiatedType = None \<rparr>)"
  by (simp add: handle_result_def Let_def split: prod.splits sum.splits)

lemma handle_trace:
  "snd (handle env request qt) = trace (snd (handle_result env request qt))"
  by (simp add: handle_def split: prod.splits sum.splits)

lemma log_errors_nullish:
  "ThrownUndefined \<in> set xs \<or> ThrownNull \<in> set xs \<Longrightarrow> log_errors xs = Inl (TypeError ''err.stack'')"
  by (induction xs) auto

lemma log_errors_fine:
  "ThrownUndefined \<notin> set xs \<Longrightarrow> ThrownNull \<notin> set xs \<Longrightarrow> log_errors xs = Inr ()"
  by (induction xs) auto

lemma negotiate_ok:
  assumes "checkMethod env request = Inr ()"
    and "checkBodyExistence env request = Inr ()"
    and "negotiateContentType env (accepts request) [''application/vnd.api+json''] = Inr ct"
  shows "negotiate env request s =
           (Inr (), \<lparr> trace = trace s @ [CheckMethod, CheckBodyExistence, NegotiateContentType],
                      negotiatedType = Some ct \<rparr>)"
  using assms by (simp add: negotiate_def io_defs)

lemma map_label_ok:
  assumes "truthy_ids (idOrIds request)" and "allowLabel request"
    and "labelToIds env (rtype request) (idOrIds request) = Inr mapped"
  shows "map_label env request s =
           (Inr (True, mapped, request\<lparr>idOrIds := mapped\<rparr>), s\<lparr>trace := trace s @ [LabelToIds]\<rparr>)"
  using assms by (simp add: map_label_def io_defs)

lemma handle_try_emits:
  assumes "truthy_ids (idOrIds request)" and "allowLabel request"
    and "labelToIds env (rtype request) (idOrIds request) = Inr mapped"
    and "mapped = NoId \<or> mapped = Ids []"
  shows "emits (\<lambda>st. st \<noteq> DoQuery) (handle_try env makeDoc request queryTransform)"
  unfolding handle_try_def
proof (rule emits_bind [OF negotiate_emits], rule emits_bind [OF check_type_emits])
  show "emits (\<lambda>st. st \<noteq> DoQuery)
          (bind (map_label env request) (\<lambda>(supportsLabelMapping, mappedLabel, request1).
             bind (prepare env queryTransform request1) (\<lambda>(adapter, request3, qry).
             bind (dispatch env makeDoc adapter supportsLabelMapping mappedLabel qry)
               (\<lambda>jsonAPIResult. render env request3 jsonAPIResult))))"
  proof (rule emits_bind_post [where Q = "\<lambda>(su, ml, r1). su \<and> (ml = NoId \<or> ml = Ids [])"])
    show "emits (\<lambda>st. st \<noteq> DoQuery) (map_label env request)"
      by (rule map_label_emits)
  next
    fix s x s'
    assume "map_label env request s = (Inr x, s')"
    then show "case x of (su, ml, r1) \<Rightarrow> su \<and> (ml = NoId \<or> ml = Ids [])"
      using assms by (auto simp: map_label_ok)
  next
    fix x :: "bool \<times> id_or_ids \<times> request"
    assume q: "case x of (su, ml, r1) \<Rightarrow> su \<and> (ml = NoId \<or> ml = Ids [])"
    obtain su ml r1 where x: "x = (su, ml, r1)" by (cases x)
    have d: "\<And>ad qry. emits (\<lambda>st. st \<noteq> DoQuery) (dispatch env makeDoc ad su ml qry)"
      using q x by (simp add: dispatch_nothing emits_ret)
    show "emits (\<lambda>st. st \<noteq> DoQuery)
            (case x of (supportsLabelMapping, mappedLabel, request1) \<Rightarrow>
               bind (prepare env queryTransform request1) (\<lambda>(adapter, request3, qry).
               bind (dispatch env makeDoc adapter supportsLabelMapping mappedLabel qry)
                 (\<lambda>jsonAPIResult. render env request3 jsonAPIResult)))"
      unfolding x by (auto intro!: emits_bind prepare_emits d render_emits)
  qed
qed


lemma emits_not_in:
  "emits (\<lambda>st. st \<noteq> DoQuery) m \<Longrightarrow> DoQuery \<notin> set (trace s) \<Longrightarrow> DoQuery \<notin> set (trace (snd (m s)))"
proof -
  assume e: "emits (\<lambda>st. st \<noteq> DoQuery) m" and n: "DoQuery \<notin> set (trace s)"
  from e obtain tr where "trace (snd (m s)) = trace s @ tr" "list_all (\<lambda>st. st \<noteq> DoQuery) tr"
    unfolding emits_def by blast
  then show ?thesis using n by (auto simp: list_all_iff)
qed


lemma bind_ok: "m s = (Inr x, s') \<Longrightarrow> bind m f s = f x s'"
  by (simp add: bind_def)

lemma bind_ret: "bind (ret x) f = f x"
  by (simp add: bind_def ret_def)

lemma handle_try_short_circuit:
  assumes "truthy_ids (idOrIds request)" and "allowLabel request"
    and "labelToIds env (rtype request) (idOrIds request) = Inr mapped"
    and "mapped = NoId \<or> mapped = Ids []"
    and "checkMethod env request = Inr ()"
    and "checkBodyExistence env request = Inr ()"
    and "negotiateContentType env (accepts request) [''application/vnd.api+json''] = Inr ct"
    and "hasType env (rtype request)"
    and "prepare env queryTransform (request\<lparr>idOrIds := mapped\<rparr>)
              \<lparr> trace = [CheckMethod, CheckBodyExistence, NegotiateContentType, LabelToIds],
                negotiatedType = Some ct \<rparr> = (Inr (adapter, request3, qry), s')"
  shows "handle_try env makeDoc request queryTransform \<lparr> trace = [], negotiatedType = None \<rparr> =
            render env request3
              \<lparr> document =
                  Some (makeDoc
                          \<lparr> primary = (if mapped = Ids [] then Collection [] else Null),
                            included = Absent, errors = None \<rparr>),
                status = None, headers = Map.empty \<rparr> s'"
proof -
  have 1: "negotiate env request \<lparr> trace = [], negotiatedType = None \<rparr> =
           (Inr (), \<lparr> trace = [CheckMethod, CheckBodyExistence, NegotiateContentType],
                      negotiatedType = Some ct \<rparr>)"
    using assms(5-7) by (simp add: negotiate_ok)
  have 2: "check_type env request = ret ()"
    using assms(8) by (simp add: check_type_def)
  have 3: "map_label env request \<lparr> trace = [CheckMethod, CheckBodyExistence, NegotiateContentType],
                      negotiatedType = Some ct \<rparr> =
           (Inr (True, mapped, request\<lparr>idOrIds := mapped\<rparr>),
            \<lparr> trace = [CheckMethod, CheckBodyExistence, NegotiateContentType, LabelToIds],
                negotiatedType = Some ct \<rparr>)"
    using assms(1-3) by (simp add: map_label_ok)
  have 4: "\<And>ad q. dispatch env makeDoc ad True mapped q =
            ret \<lparr> document =
                  Some (makeDoc
                          \<lparr> primary = (if mapped = Ids [] then Collection [] else Null),
                            included = Absent, errors = None \<rparr>),
                status = None, headers = Map.empty \<rparr>"
    using assms(4) by (simp add: dispatch_nothing)
  show ?thesis
    unfolding handle_try_def
    apply (subst bind_ok [where m = "negotiate env request", OF 1])
    apply (simp only: 2 bind_ret)
    apply (subst bind_ok [where m = "map_label env request", OF 3])
    apply (simp only: prod.case)
    apply (subst bind_ok [where m = "prepare env queryTransform (request\<lparr>idOrIds := mapped\<rparr>)", OF assms(9)])
    apply (simp only: prod.case 4 bind_ret)
    done
qed

lemma make_document_sel:
  "primary (make_document u t d) = primary d"
  "included (make_document u t d) = included d"
  "errors (make_document u t d) = errors d"
  by (simp_all add: make_document_def)




lemma toLowerCase_Nil: "toLowerCase h = [] \<longleftrightarrow> h = []"
  by (cases h rule: toLowerCase.cases) (simp_all add: Let_def)

declare toLowerCase.simps [simp del] toUpperCase.simps [simp del]

lemma read_body_method: "read_body rt req it = Inr it' \<Longrightarrow> req_method it' = req_method it"
  by (auto simp: read_body_def Let_def split: if_splits sum.splits option.splits)

lemma toUpperCase_patch: "toUpperCase ''patch'' = ''PATCH''"
  by code_simp

lemma toLowerCase_samples:
  "toLowerCase ''POST'' = ''post''"
  "toLowerCase ''PATCH'' = ''patch''"
  "toLowerCase ''DELETE'' = ''delete''"
  "toLowerCase ''GET'' = ''get''"
  "toUpperCase ''delete'' = ''DELETE''"
  by code_simp+

text \<open>The letters beyond ASCII: upper case of the sharp s, of a-grave and of the micro sign.\<close>

lemma toUpperCase_beyond_ascii:
  "toUpperCase [CHR 0xC3, CHR 0x9F] = ''SS''"
  "toUpperCase [CHR 0xC3, CHR 0xA0] = [CHR 0xC3, CHR 0x80]"
  "toLowerCase [CHR 0xC3, CHR 0x80] = [CHR 0xC3, CHR 0xA0]"
  "toUpperCase [CHR 0xC2, CHR 0xB5] = [CHR 0xCE, CHR 0x9C]"
  "toUpperCase [CHR 0xC3, CHR 0xBF] = [CHR 0xC5, CHR 0xB8]"
  by code_simp+

text \<open>
  A \<open>doQuery\<close> that throws instead of returning a promise leaves the try block, whatever
  \<open>query.catch\<close> is; a promise that rejects goes to \<open>query.catch\<close> or to
  \<open>makeResultFromErrors\<close>.
\<close>

lemma dispatch_doQuery_throws:
  "doQuery adapter (Some q) = Threw e \<Longrightarrow>
   dispatch env makeDoc adapter False mapped (Some q) s = (Inl e, s\<lparr>trace := trace s @ [DoQuery]\<rparr>)"
  by (simp add: dispatch_def io_defs)

lemma dispatch_doQuery_rejects:
  "doQuery adapter (Some q) = Rejected e \<Longrightarrow> catch q = None \<Longrightarrow>
   dispatch env makeDoc adapter False mapped (Some q) s =
     (Inr (makeResultFromErrors (fromError env) makeDoc e), s\<lparr>trace := trace s @ [DoQuery]\<rparr>)"
  by (simp add: dispatch_def io_defs)

lemma handle_catch_resolves:
  assumes "ThrownUndefined \<notin> set (as_array err)" and "ThrownNull \<notin> set (as_array err)"
  shows "handle_catch env makeDoc err = Inr (makeResultFromErrors (fromError env) makeDoc err)"
  using assms by (simp add: handle_catch_def Let_def log_errors_fine)

text \<open>
  In the model \<open>handle\<close> resolves unless the try block throws \<open>null\<close>, \<open>undefined\<close>, or an array
  holding one of them.
\<close>

lemma handle_resolves_unless_nullish:
  "(\<exists>resp. fst (handle env request queryTransform) = Inr resp) \<or>
   (\<exists>err. fst (handle_try env (make_document (uri request) (registry_urlTemplates env)) request
                  queryTransform \<lparr> trace = [], negotiatedType = None \<rparr>) = Inl err \<and>
          (ThrownUndefined \<in> set (as_array err) \<or> ThrownNull \<in> set (as_array err)))"
proof (cases "handle_try env (make_document (uri request) (registry_urlTemplates env)) request
                  queryTransform \<lparr> trace = [], negotiatedType = None \<rparr>")
  case (Pair r s)
  show ?thesis
  proof (cases r)
    case (Inr res)
    then show ?thesis using Pair by (simp add: handle_def handle_result_def Let_def)
  next
    case (Inl err)
    show ?thesis
    proof (cases "ThrownUndefined \<in> set (as_array err) \<or> ThrownNull \<in> set (as_array err)")
      case True
      then show ?thesis using Pair Inl by auto
    next
      case False
      then have "handle_catch env (make_document (uri request) (registry_urlTemplates env)) err =
                   Inr (makeResultFromErrors (fromError env)
                          (make_document (uri request) (registry_urlTemplates env)) err)"
        by (simp add: handle_catch_resolves)
      then show ?thesis using Pair Inl by (simp add: handle_def handle_result_def Let_def)
    qed
  qed
qed

section \<open>The claims\<close>

text \<open>
  C1. The claim: whatever the transform hooks and the adapter do, throwing arbitrary values
  included, \<open>handle\<close> never rejects. The code does reject when the value thrown inside the try
  block is \<open>undefined\<close> or \<open>null\<close> (or an array holding one): the catch block reads \<open>err.stack\<close>
  of every thrown value for the log, and that read throws a TypeError outside any handler.
  The theorem: whenever the try block throws such a value, \<open>handle\<close> rejects with that
  TypeError. (The coercion \<open>APIError.fromError\<close>, called just before, is taken to return; were
  it to throw on such a value, \<open>handle\<close> would reject all the same.) In every other case
  \<open>handle\<close> resolves: lemma \<open>handle_resolves_unless_nullish\<close>.
\<close>

theorem handle_rejects_on_nullish:
  assumes "fst (handle_try env (make_document (uri request) (registry_urlTemplates env)) request
                  queryTransform \<lparr> trace = [], negotiatedType = None \<rparr>) = Inl err"
    and "ThrownUndefined \<in> set (as_array err) \<or> ThrownNull \<in> set (as_array err)"
  shows "fst (handle env request queryTransform) = Inl (TypeError ''err.stack'')"
proof -
  have "handle_catch env (make_document (uri request) (registry_urlTemplates env)) err =
          Inl (TypeError ''err.stack'')"
    using assms(2) by (simp add: handle_catch_def Let_def log_errors_nullish)
  then show ?thesis
    using assms(1)
    by (auto simp: handle_def handle_result_def Let_def split: prod.splits sum.splits)
qed

text \<open>A \<open>beforeSave\<close> hook that rejects with \<open>undefined\<close>, on a POST with a body.\<close>

theorem handle_rejects_on_nullish_witness:
  "fst (handle (sample_env\<lparr>applyTransform :=
                   (\<lambda>d m r. if m = BeforeSave then Inl ThrownUndefined else Inr d)\<rparr>)
          post_request None) = Inl (TypeError ''err.stack'')"
proof -
  let ?env = "sample_env\<lparr>applyTransform :=
                   (\<lambda>d m r. if m = BeforeSave then Inl ThrownUndefined else Inr d)\<rparr>"
  have t: "fst (handle_try ?env (make_document (uri post_request) (registry_urlTemplates ?env))
                  post_request None \<lparr> trace = [], negotiatedType = None \<rparr>) = Inl ThrownUndefined"
    by (simp add: handle_try_def stage_defs io_defs sample_defs get_prop_def Let_def)
  show ?thesis
    using handle_rejects_on_nullish [OF t] by (simp add: as_array_def)
qed

text \<open>
  C2. The status of the response is: the Result's explicit status when it is set (a number
  other than 0, which every HTTP status is; the code tests \<open>if(response.status)\<close>);
  otherwise, when the Result has a Document containing errors, the status
  \<open>Number(status)\<close> of the first error; otherwise 200 when it has a Document without an
  errors sequence; otherwise 204 when it has no Document. The alternatives are also those
  taken for a status that is 0 or \<open>NaN\<close>; and a Document whose errors sequence is empty
  has no first error: the status is then \<open>undefined\<close>.
\<close>

theorem resultToHTTPResponse_status:
  "(status r = Some (Numeric s) \<and> s \<noteq> 0 \<longrightarrow>
      http_status (resultToHTTPResponse r ct) = Some (Numeric s)) \<and>
   ((status r = None \<or> status r = Some NaN \<or> status r = Some (Numeric 0)) \<and>
    document r = Some d \<and> errors d = Some (e # es) \<longrightarrow>
      http_status (resultToHTTPResponse r ct) = Some (js_Number (err_status e))) \<and>
   ((status r = None \<or> status r = Some NaN \<or> status r = Some (Numeric 0)) \<and>
    document r = Some d \<and> errors d = None \<longrightarrow>
      http_status (resultToHTTPResponse r ct) = Some (Numeric 200)) \<and>
   ((status r = None \<or> status r = Some NaN \<or> status r = Some (Numeric 0)) \<and>
    document r = None \<longrightarrow>
      http_status (resultToHTTPResponse r ct) = Some (Numeric 204)) \<and>
   ((status r = None \<or> status r = Some NaN \<or> status r = Some (Numeric 0)) \<and>
    document r = Some d \<and> errors d = Some [] \<longrightarrow>
      http_status (resultToHTTPResponse r ct) = None)"
  by (auto simp: resultToHTTPResponse_def truthy_num_def js_Number_def pickStatus_def)

text \<open>
  One Result for each case: an explicit 201; two errors, 404 first; a Document with data;
  no Document; an empty errors sequence.
\<close>

theorem resultToHTTPResponse_status_witness:
  "http_status (resultToHTTPResponse
      \<lparr> document = None, status = Some (Numeric 201), headers = Map.empty \<rparr> None)
     = Some (Numeric 201) \<and>
   http_status (resultToHTTPResponse
      \<lparr> document = Some (make_document ''http://localhost/people'' JNull
                           \<lparr> primary = Absent, included = Absent,
                             errors = Some [APIError (Some 404) None ''first'',
                                            APIError (Some 500) None ''second''] \<rparr>),
        status = None, headers = Map.empty \<rparr> None)
     = Some (Numeric 404) \<and>
   http_status (resultToHTTPResponse sample_result None) = Some (Numeric 200) \<and>
   http_status (resultToHTTPResponse \<lparr> document = None, status = None, headers = Map.empty \<rparr> None)
     = Some (Numeric 204) \<and>
   http_status (resultToHTTPResponse
      \<lparr> document = Some (make_document ''http://localhost/people'' JNull
                           \<lparr> primary = Absent, included = Absent, errors = Some [] \<rparr>),
        status = None, headers = Map.empty \<rparr> None)
     = None"
  using
    resultToHTTPResponse_status
      [where r = "\<lparr> document = None, status = Some (Numeric 201), headers = Map.empty \<rparr>"
         and s = 201 and ct = None]
    resultToHTTPResponse_status
      [where r = "\<lparr> document = Some (make_document ''http://localhost/people'' JNull
                           \<lparr> primary = Absent, included = Absent,
                             errors = Some [APIError (Some 404) None ''first'',
                                            APIError (Some 500) None ''second''] \<rparr>),
                    status = None, headers = Map.empty \<rparr>"
         and ct = None
         and d = "make_document ''http://localhost/people'' JNull
                           \<lparr> primary = Absent, included = Absent,
                             errors = Some [APIError (Some 404) None ''first'',
                                            APIError (Some 500) None ''second''] \<rparr>"
         and e = "APIError (Some 404) None ''first''"
         and es = "[APIError (Some 500) None ''second'']"]
    resultToHTTPResponse_status
      [where r = sample_result and ct = None
         and d = "make_document ''http://localhost/people'' JNull
             \<lparr> primary = Collection [JStr ''ann''], included = Absent, errors = None \<rparr>"]
    resultToHTTPResponse_status
      [where r = "\<lparr> document = None, status = None, headers = Map.empty \<rparr>" and ct = None]
    resultToHTTPResponse_status
      [where r = "\<lparr> document = Some (make_document ''http://localhost/people'' JNull
                           \<lparr> primary = Absent, included = Absent, errors = Some [] \<rparr>),
                    status = None, headers = Map.empty \<rparr>"
         and ct = None
         and d = "make_document ''http://localhost/people'' JNull
                           \<lparr> primary = Absent, included = Absent, errors = Some [] \<rparr>"]
  by (simp add: sample_result_def make_document_def js_Number_def)

text \<open>
  C3. A label that resolves to nothing, as amended. For every request whose identifier slot
  holds a label (label usage allowed, a truthy identifier) that resolves to \<open>null\<close>/\<open>undefined\<close>
  or to the empty array: the adapter's \<open>doQuery\<close> is never invoked, whatever the other
  stages do; and when the stages that still run (method, body and type checks, content
  negotiation, query parameters, body parsing with \<open>beforeSave\<close>, query construction) succeed
  and the two \<open>beforeRender\<close> transforms return, the response is a 200 whose primary data is
  the \<open>beforeRender\<close> transform of an empty collection (empty array) or of \<open>null\<close> (null
  resolution).
\<close>

theorem label_mapped_to_nothing:
  assumes "truthy_ids (idOrIds request)" and "allowLabel request"
    and "labelToIds env (rtype request) (idOrIds request) = Inr mapped"
    and "mapped = NoId \<or> mapped = Ids []"
  shows "DoQuery \<notin> set (snd (handle env request queryTransform)) \<and>
         (\<forall>ct adapter request3 qry s' p i.
            checkMethod env request = Inr () \<and>
            checkBodyExistence env request = Inr () \<and>
            negotiateContentType env (accepts request) [''application/vnd.api+json''] = Inr ct \<and>
            hasType env (rtype request) \<and>
            prepare env queryTransform (request\<lparr>idOrIds := mapped\<rparr>)
              \<lparr> trace = [CheckMethod, CheckBodyExistence, NegotiateContentType, LabelToIds],
                negotiatedType = Some ct \<rparr> = (Inr (adapter, request3, qry), s') \<and>
            applyTransform env (if mapped = Ids [] then Collection [] else Null) BeforeRender request3
              = Inr p \<and>
            applyTransform env Absent BeforeRender request3 = Inr i
            \<longrightarrow>
            fst (handle env request queryTransform) =
              Inr \<lparr> http_status = Some (Numeric 200),
                    http_headers =
                      [''content-type'' \<mapsto> (if ct = [] then ''application/vnd.api+json'' else ct),
                       ''vary'' \<mapsto> ''Accept''],
                    http_body =
                      Some (make_document (uri request) (registry_urlTemplates env)
                              \<lparr> primary = p, included = i, errors = None \<rparr>) \<rparr>)"
proof (intro conjI allI impI)
  have "DoQuery \<notin> set (trace (snd (handle_try env
          (make_document (uri request) (registry_urlTemplates env)) request queryTransform
          \<lparr> trace = [], negotiatedType = None \<rparr>)))"
    by (rule emits_not_in [OF handle_try_emits [OF assms]]) simp
  then show "DoQuery \<notin> set (snd (handle env request queryTransform))"
    by (simp add: handle_trace handle_result_state)
next
  fix ct adapter request3 qry s' p i
  assume h: "checkMethod env request = Inr () \<and>
            checkBodyExistence env request = Inr () \<and>
            negotiateContentType env (accepts request) [''application/vnd.api+json''] = Inr ct \<and>
            hasType env (rtype request) \<and>
            prepare env queryTransform (request\<lparr>idOrIds := mapped\<rparr>)
              \<lparr> trace = [CheckMethod, CheckBodyExistence, NegotiateContentType, LabelToIds],
                negotiatedType = Some ct \<rparr> = (Inr (adapter, request3, qry), s') \<and>
            applyTransform env (if mapped = Ids [] then Collection [] else Null) BeforeRender request3
              = Inr p \<and>
            applyTransform env Absent BeforeRender request3 = Inr i"
  let ?mk = "make_document (uri request) (registry_urlTemplates env)"
  have k: "negotiatedType s' = Some ct"
    using prepare_keeps [of env queryTransform "request\<lparr>idOrIds := mapped\<rparr>"] h
    unfolding keeps_def by (metis pstate.select_convs(2) snd_conv)
  have t: "handle_try env ?mk request queryTransform \<lparr> trace = [], negotiatedType = None \<rparr> =
            render env request3
              \<lparr> document =
                  Some (?mk \<lparr> primary = (if mapped = Ids [] then Collection [] else Null),
                            included = Absent, errors = None \<rparr>),
                status = None, headers = Map.empty \<rparr> s'"
    using assms h by (intro handle_try_short_circuit [where adapter = adapter and qry = qry and ct = ct]) simp_all
  have r: "render env request3
              \<lparr> document =
                  Some (?mk \<lparr> primary = (if mapped = Ids [] then Collection [] else Null),
                            included = Absent, errors = None \<rparr>),
                status = None, headers = Map.empty \<rparr> s' =
           (Inr \<lparr> document = Some (?mk \<lparr> primary = p, included = i, errors = None \<rparr>),
                  status = None, headers = Map.empty \<rparr>,
            s'\<lparr>trace := trace s' @ [ApplyTransform BeforeRender, ApplyTransform BeforeRender]\<rparr>)"
    using h by (simp add: render_def make_document_def io_defs)
  show "fst (handle env request queryTransform) =
              Inr \<lparr> http_status = Some (Numeric 200),
                    http_headers =
                      [''content-type'' \<mapsto> (if ct = [] then ''application/vnd.api+json'' else ct),
                       ''vary'' \<mapsto> ''Accept''],
                    http_body =
                      Some (make_document (uri request) (registry_urlTemplates env)
                              \<lparr> primary = p, included = i, errors = None \<rparr>) \<rparr>"
    using t r k
    by (simp add: handle_def handle_result_def Let_def resultToHTTPResponse_def truthy_num_def js_Number_def
          make_document_sel truthy_str_def str_of_def)
qed

text \<open>
  \<open>GET /people/me\<close> where the label \<open>me\<close> resolves to the empty array, and where it
  resolves to \<open>null\<close>.
\<close>

theorem label_mapped_to_nothing_witness:
  "DoQuery \<notin> set (snd (handle sample_env label_request None)) \<and>
   fst (handle sample_env label_request None) =
     Inr \<lparr> http_status = Some (Numeric 200),
           http_headers = [''content-type'' \<mapsto> ''application/vnd.api+json'', ''vary'' \<mapsto> ''Accept''],
           http_body =
             Some (make_document ''http://localhost/people'' JNull
                     \<lparr> primary = Collection [], included = Absent, errors = None \<rparr>) \<rparr> \<and>
   DoQuery \<notin> set (snd (handle (sample_env\<lparr>labelToIds := (\<lambda>t i. Inr NoId)\<rparr>) label_request None)) \<and>
   fst (handle (sample_env\<lparr>labelToIds := (\<lambda>t i. Inr NoId)\<rparr>) label_request None) =
     Inr \<lparr> http_status = Some (Numeric 200),
           http_headers = [''content-type'' \<mapsto> ''application/vnd.api+json'', ''vary'' \<mapsto> ''Accept''],
           http_body =
             Some (make_document ''http://localhost/people'' JNull
                     \<lparr> primary = Null, included = Absent, errors = None \<rparr>) \<rparr>"
proof -
  let ?env = "sample_env\<lparr>labelToIds := (\<lambda>t i. Inr NoId)\<rparr>"
  have p: "prepare sample_env None (label_request\<lparr>idOrIds := Ids []\<rparr>)
             \<lparr> trace = [CheckMethod, CheckBodyExistence, NegotiateContentType, LabelToIds],
               negotiatedType = Some ''application/vnd.api+json'' \<rparr> =
           (Inr (sample_adapter,
                 label_request\<lparr>idOrIds := Ids [], queryParams := JObj [(''filter'', JUndefined)]\<rparr>,
                 Some sample_query),
            \<lparr> trace = [CheckMethod, CheckBodyExistence, NegotiateContentType, LabelToIds,
                       DbAdapter, ParseQueryParams, FilterParamParser, MakeQuery],
              negotiatedType = Some ''application/vnd.api+json'' \<rparr>)"
    by (simp add: stage_defs io_defs sample_env_def sample_request_def label_request_def)
  have p': "prepare ?env None (label_request\<lparr>idOrIds := NoId\<rparr>)
             \<lparr> trace = [CheckMethod, CheckBodyExistence, NegotiateContentType, LabelToIds],
               negotiatedType = Some ''application/vnd.api+json'' \<rparr> =
           (Inr (sample_adapter,
                 label_request\<lparr>idOrIds := NoId, queryParams := JObj [(''filter'', JUndefined)]\<rparr>,
                 Some sample_query),
            \<lparr> trace = [CheckMethod, CheckBodyExistence, NegotiateContentType, LabelToIds,
                       DbAdapter, ParseQueryParams, FilterParamParser, MakeQuery],
              negotiatedType = Some ''application/vnd.api+json'' \<rparr>)"
    by (simp add: stage_defs io_defs sample_env_def sample_request_def label_request_def)
  have a: "truthy_ids (idOrIds label_request)" "allowLabel label_request"
    "labelToIds sample_env (rtype label_request) (idOrIds label_request) = Inr (Ids [])"
    by (simp_all add: sample_env_def sample_request_def label_request_def)
  have a': "truthy_ids (idOrIds label_request)" "allowLabel label_request"
    "labelToIds ?env (rtype label_request) (idOrIds label_request) = Inr NoId"
    by (simp_all add: sample_env_def sample_request_def label_request_def)
  show ?thesis
    using label_mapped_to_nothing [OF a, of None] p label_mapped_to_nothing [OF a', of None] p'
    by (simp add: sample_env_def sample_request_def label_request_def)
qed

text \<open>
  The claim as stated fails when a stage after the label resolution fails: the same
  request, with a filter parser that rejects the filter, gets a 400 error document and no
  empty collection.
\<close>

theorem label_mapped_to_nothing_filter_fails:
  "truthy_ids (idOrIds label_request) \<and> allowLabel label_request \<and>
   labelToIds (sample_env\<lparr>filterParamParser :=
                 (\<lambda>u b raw q. Inl (ThrownAPIError (APIError (Some 400) None ''Invalid filter'')))\<rparr>)
     (rtype label_request) (idOrIds label_request) = Inr (Ids []) \<and>
   fst (handle (sample_env\<lparr>filterParamParser :=
                  (\<lambda>u b raw q. Inl (ThrownAPIError (APIError (Some 400) None ''Invalid filter'')))\<rparr>)
          label_request None) =
     Inr \<lparr> http_status = Some (Numeric 400),
           http_headers = [''content-type'' \<mapsto> ''application/vnd.api+json'', ''vary'' \<mapsto> ''Accept''],
           http_body =
             Some (make_document ''http://localhost/people'' JNull
                     \<lparr> primary = Absent, included = Absent,
                       errors = Some [APIError (Some 400) None ''Invalid filter''] \<rparr>) \<rparr>"
  by (simp add: handle_def handle_result_def handle_try_def stage_defs io_defs sample_defs
        handle_catch_def makeResultFromErrors_def as_array_def pickStatus_def
        resultToHTTPResponse_def truthy_num_def js_Number_def truthy_str_def str_of_def Let_def)

text \<open>
  C4. An \<open>and\<close> or \<open>or\<close> Predicate whose value sequence is empty translates to the empty
  criteria object \<open>{}\<close>, the filter that constrains nothing.
\<close>

theorem toMongoCriteria_empty_predicate:
  "toMongoCriteria (Predicate op []) = Inr (JObj [])"
  by simp

text \<open>
  C5. For every FieldConstraint (its operator is not one of the Predicate tags \<open>and\<close>,
  \<open>or\<close>): operator \<open>eq\<close> gives \<open>{field: value}\<close> with no operator wrapper, every other
  operator \<open>op\<close> gives \<open>{field: {$op: value}}\<close> where \<open>neq\<close> is written \<open>$ne\<close>, and the field
  name \<open>id\<close> is replaced by \<open>_id\<close>.
\<close>

theorem toMongoCriteria_field_constraint:
  assumes "op \<noteq> ''and''" and "op \<noteq> ''or''"
  shows "toMongoCriteria (FieldConstraint f op v) =
           Inr (JObj [(if f = ''id'' then ''_id'' else f,
                       if op = ''eq'' then fvalue_val v
                       else JObj [(if op = ''neq'' then ''$ne'' else ''$'' @ op, fvalue_val v)])])"
  using assms by simp

theorem toMongoCriteria_field_constraint_witness:
  "toMongoCriteria (FieldConstraint ''id'' ''eq'' (One (Str ''7''))) = Inr (JObj [(''_id'', JStr ''7'')]) \<and>
   toMongoCriteria (FieldConstraint ''name'' ''neq'' (One (Str ''x''))) =
     Inr (JObj [(''name'', JObj [(''$ne'', JStr ''x'')])]) \<and>
   toMongoCriteria (FieldConstraint ''age'' ''gte'' (One (Num 18))) =
     Inr (JObj [(''age'', JObj [(''$gte'', JNum 18)])])"
  using toMongoCriteria_field_constraint [of "''eq''" "''id''" "One (Str ''7'')"]
        toMongoCriteria_field_constraint [of "''neq''" "''name''" "One (Str ''x'')"]
        toMongoCriteria_field_constraint [of "''gte''" "''age''" "One (Num 18)"]
  by simp




text \<open>
  C7. A request that passes the method check, the body-existence check and content
  negotiation but names a type that is not registered gets a 404 error document, and the
  only calls made are those three: no adapter is looked up, no query is built, \<open>doQuery\<close>
  is not invoked. (The from-error coercion, a parameter, is taken to return an APIError as
  it is.)
\<close>

theorem handle_unregistered_type:
  assumes "checkMethod env request = Inr ()"
    and "checkBodyExistence env request = Inr ()"
    and "negotiateContentType env (accepts request) [''application/vnd.api+json''] = Inr ct"
    and "\<not> hasType env (rtype request)"
    and "\<And>e. fromError env (ThrownAPIError e) = e"
  shows "handle env request queryTransform =
           (Inr \<lparr> http_status = Some (Numeric 404),
                  http_headers =
                    [''content-type'' \<mapsto> (if ct = [] then ''application/vnd.api+json'' else ct),
                     ''vary'' \<mapsto> ''Accept''],
                  http_body =
                    Some (make_document (uri request) (registry_urlTemplates env)
                            \<lparr> primary = Absent, included = Absent,
                              errors = Some [APIError (Some 404) None
                                               (str_of (rtype request) @ '' is not a valid type.'')] \<rparr>) \<rparr>,
            [CheckMethod, CheckBodyExistence, NegotiateContentType])"
  using assms
  by (simp add: handle_def handle_result_def handle_try_def negotiate_def check_type_def io_defs
        handle_catch_def makeResultFromErrors_def as_array_def pickStatus_def
        resultToHTTPResponse_def truthy_num_def js_Number_def truthy_str_def str_of_def Let_def)

text \<open>\<open>GET /ghosts\<close> against a registry that only knows \<open>people\<close>.\<close>

theorem handle_unregistered_type_witness:
  "handle sample_env (sample_request\<lparr>rtype := Some ''ghosts''\<rparr>) None =
     (Inr \<lparr> http_status = Some (Numeric 404),
            http_headers = [''content-type'' \<mapsto> ''application/vnd.api+json'', ''vary'' \<mapsto> ''Accept''],
            http_body =
              Some (make_document ''http://localhost/people'' JNull
                      \<lparr> primary = Absent, included = Absent,
                        errors = Some [APIError (Some 404) None ''ghosts is not a valid type.''] \<rparr>) \<rparr>,
      [CheckMethod, CheckBodyExistence, NegotiateContentType])"
  using handle_unregistered_type [of sample_env "sample_request\<lparr>rtype := Some ''ghosts''\<rparr>"
          "''application/vnd.api+json''" None]
  by (simp add: sample_defs str_of_def)

text \<open>
  C8. The headers of the response, as amended. Whenever \<open>handle\<close> reaches its last statement
  with a Result, it resolves with a response whose headers are the Result's header
  overrides and, for every name the Result does not override, \<open>vary: Accept\<close> and a
  \<open>content-type\<close> that is the negotiated media type (the JSON:API media type when the
  negotiated one is empty or negotiation never completed). The negotiated type is that
  returned by \<open>negotiateContentType\<close> when the two checks before it passed, and absent
  otherwise. A Result made by the catch block has no overrides.
\<close>

theorem handle_response_headers:
  assumes "handle_result env request queryTransform = (Inr r, s)"
  shows "\<exists>resp. handle env request queryTransform = (Inr resp, trace s) \<and>
           (\<forall>k. http_headers resp k =
                  (case headers r k of
                     Some v \<Rightarrow> Some v
                   | None \<Rightarrow>
                       [''content-type'' \<mapsto>
                          (case negotiatedType s of
                             None \<Rightarrow> ''application/vnd.api+json''
                           | Some ct \<Rightarrow> if ct = [] then ''application/vnd.api+json'' else ct),
                        ''vary'' \<mapsto> ''Accept''] k)) \<and>
           negotiatedType s =
             (case checkMethod env request of
                Inl e \<Rightarrow> None
              | Inr u \<Rightarrow>
                  (case checkBodyExistence env request of
                     Inl e \<Rightarrow> None
                   | Inr u \<Rightarrow>
                       (case negotiateContentType env (accepts request)
                               [''application/vnd.api+json''] of
                          Inl e \<Rightarrow> None
                        | Inr ct \<Rightarrow> Some ct))) \<and>
           (\<forall>err s0. handle_try env (make_document (uri request) (registry_urlTemplates env))
                         request queryTransform \<lparr> trace = [], negotiatedType = None \<rparr> = (Inl err, s0)
                 \<longrightarrow> headers r = Map.empty)"
proof -
  let ?mk = "make_document (uri request) (registry_urlTemplates env)"
  let ?s0 = "\<lparr> trace = [], negotiatedType = None \<rparr>"
  have s: "s = snd (handle_try env ?mk request queryTransform ?s0)"
    using assms handle_result_state [of env request queryTransform] by simp
  have n: "negotiatedType s =
             (case checkMethod env request of
                Inl e \<Rightarrow> None
              | Inr u \<Rightarrow>
                  (case checkBodyExistence env request of
                     Inl e \<Rightarrow> None
                   | Inr u \<Rightarrow>
                       (case negotiateContentType env (accepts request)
                               [''application/vnd.api+json''] of
                          Inl e \<Rightarrow> None
                        | Inr ct \<Rightarrow> Some ct)))"
    unfolding s handle_try_type negotiate_type by (simp split: sum.splits)
  have h: "handle env request queryTransform =
             (Inr (resultToHTTPResponse r (negotiatedType s)), trace s)"
    using assms by (simp add: handle_def)
  have k: "\<forall>k. http_headers (resultToHTTPResponse r (negotiatedType s)) k =
                  (case headers r k of
                     Some v \<Rightarrow> Some v
                   | None \<Rightarrow>
                       [''content-type'' \<mapsto>
                          (case negotiatedType s of
                             None \<Rightarrow> ''application/vnd.api+json''
                           | Some ct \<Rightarrow> if ct = [] then ''application/vnd.api+json'' else ct),
                        ''vary'' \<mapsto> ''Accept''] k)"
    by (auto simp: resultToHTTPResponse_def truthy_num_def js_Number_def map_add_def truthy_str_def str_of_def
          split: option.splits)
  have c: "\<forall>err s0. handle_try env ?mk request queryTransform ?s0 = (Inl err, s0)
                 \<longrightarrow> headers r = Map.empty"
    using assms
    by (auto simp: handle_result_def Let_def handle_catch_def makeResultFromErrors_def
          split: sum.splits)
  show ?thesis
    using h k n c by blast
qed

text \<open>
  \<open>GET /people\<close> with collaborators that accept everything; \<open>GET /ghosts\<close>, a type that is
  not registered, with \<open>application/json\<close> negotiated; and a request the method check
  rejects, for which negotiation never runs.
\<close>

theorem handle_response_headers_witness:
  "(\<exists>resp. handle sample_env sample_request None =
            (Inr resp, [CheckMethod, CheckBodyExistence, NegotiateContentType, DbAdapter,
                        ParseQueryParams, FilterParamParser, MakeQuery, DoQuery, Returning,
                        ApplyTransform BeforeRender, ApplyTransform BeforeRender]) \<and>
          http_headers resp ''vary'' = Some ''Accept'' \<and>
          http_headers resp ''content-type'' = Some ''application/vnd.api+json'') \<and>
   (\<exists>resp. handle (sample_env\<lparr>negotiateContentType := (\<lambda>a supported. Inr ''application/json'')\<rparr>)
             (sample_request\<lparr>rtype := Some ''ghosts''\<rparr>) None =
            (Inr resp, [CheckMethod, CheckBodyExistence, NegotiateContentType]) \<and>
          http_headers resp ''vary'' = Some ''Accept'' \<and>
          http_headers resp ''content-type'' = Some ''application/json'') \<and>
   (\<exists>resp. handle (sample_env\<lparr>checkMethod :=
                       (\<lambda>r. Inl (ThrownAPIError (APIError (Some 405) None ''Method not allowed'')))\<rparr>)
             sample_request None = (Inr resp, [CheckMethod]) \<and>
          http_headers resp ''vary'' = Some ''Accept'' \<and>
          http_headers resp ''content-type'' = Some ''application/vnd.api+json'')"
proof -
  let ?mk = "make_document ''http://localhost/people'' JNull"
  have e1: "handle_result sample_env sample_request None =
             (Inr sample_result,
              \<lparr> trace = [CheckMethod, CheckBodyExistence, NegotiateContentType, DbAdapter,
                         ParseQueryParams, FilterParamParser, MakeQuery, DoQuery, Returning,
                         ApplyTransform BeforeRender, ApplyTransform BeforeRender],
                negotiatedType = Some ''application/vnd.api+json'' \<rparr>)"
    by (simp add: handle_result_def handle_try_def stage_defs io_defs sample_defs
          make_document_def Let_def)
  have e2: "handle_result (sample_env\<lparr>negotiateContentType := (\<lambda>a supported. Inr ''application/json'')\<rparr>)
              (sample_request\<lparr>rtype := Some ''ghosts''\<rparr>) None =
             (Inr \<lparr> document = Some (?mk \<lparr> primary = Absent, included = Absent,
                        errors = Some [APIError (Some 404) None ''ghosts is not a valid type.''] \<rparr>),
                    status = Some (Numeric 404), headers = Map.empty \<rparr>,
              \<lparr> trace = [CheckMethod, CheckBodyExistence, NegotiateContentType],
                negotiatedType = Some ''application/json'' \<rparr>)"
    by (simp add: handle_result_def handle_try_def negotiate_def check_type_def io_defs sample_defs
          handle_catch_def makeResultFromErrors_def as_array_def pickStatus_def js_Number_def
          str_of_def Let_def)
  have e3: "handle_result (sample_env\<lparr>checkMethod :=
                       (\<lambda>r. Inl (ThrownAPIError (APIError (Some 405) None ''Method not allowed'')))\<rparr>)
              sample_request None =
             (Inr \<lparr> document = Some (?mk \<lparr> primary = Absent, included = Absent,
                        errors = Some [APIError (Some 405) None ''Method not allowed''] \<rparr>),
                    status = Some (Numeric 405), headers = Map.empty \<rparr>,
              \<lparr> trace = [CheckMethod], negotiatedType = None \<rparr>)"
    by (simp add: handle_result_def handle_try_def negotiate_def io_defs sample_defs
          handle_catch_def makeResultFromErrors_def as_array_def pickStatus_def js_Number_def
          Let_def)
  show ?thesis
    using handle_response_headers [OF e1] handle_response_headers [OF e2]
      handle_response_headers [OF e3]
    by (auto simp: sample_result_def)
qed

text \<open>
  The claim as stated fails when the Result overrides the header: here \<open>query.returning\<close>
  gives a Result with the header \<open>vary: Origin\<close>, and that is what the response carries.
\<close>

theorem handle_vary_overridden:
  "(case fst (handle
       (sample_env\<lparr>makeGET := (\<lambda>r. Inr (sample_query\<lparr>returning :=
            (\<lambda>raw. Inr (sample_result\<lparr>headers := [''vary'' \<mapsto> ''Origin'']\<rparr>))\<rparr>))\<rparr>)
       sample_request None) of
      Inl e \<Rightarrow> False
    | Inr resp \<Rightarrow> http_headers resp ''vary'' = Some ''Origin'')"
  by (simp add: handle_def handle_result_def handle_try_def stage_defs io_defs sample_defs
        resultToHTTPResponse_def truthy_num_def js_Number_def make_document_def Let_def)

text \<open>
  C9. Tunnelling POST to PATCH, as amended. For a request whose method is \<open>post\<close> (in any
  letter case) with the header \<open>x-http-method-override: patch\<close> (in any letter case): when
  tunnelling is disabled, \<open>buildRequestObject\<close> rejects with a 400 APIError whose text is
  \<open>Cannot tunnel to the method "PATCH".\<close>, the method name in double quotes; when tunnelling
  is enabled, every Request it builds has method \<open>patch\<close>, and it does build one when the
  request has no body.
\<close>

theorem tunnel_post_patch:
  assumes "toLowerCase (im_method req) = ''post''"
    and "im_headers req ''x-http-method-override'' = Some h"
    and "toLowerCase h = ''patch''"
  shows "(\<not> tunnel cfg \<longrightarrow>
            buildRequestObject cfg rt req protocol fallbackHost params parsedQuery =
              Inl (ThrownAPIError (APIError (Some 400) None
                     (''Cannot tunnel to the method '' @ [CHR 0x22] @ ''PATCH'' @ [CHR 0x22] @ ''.'')))) \<and>
         (tunnel cfg \<longrightarrow>
            (\<forall>it. buildRequestObject cfg rt req protocol fallbackHost params parsedQuery = Inr it
                  \<longrightarrow> req_method it = ''patch'') \<and>
            (\<not> hasBody_of rt req \<longrightarrow>
               (\<exists>it. buildRequestObject cfg rt req protocol fallbackHost params parsedQuery = Inr it)))"
proof -
  have m: "req_method (initial_request cfg rt req protocol fallbackHost params parsedQuery) = ''post''"
    using assms(1) by (simp add: initial_request_def Let_def)
  show ?thesis
  proof (cases "tunnel cfg")
    case False
    then show ?thesis
      using assms toUpperCase_patch by (simp add: buildRequestObject_def tunnel_method_def m Let_def)
  next
    case True
    have t: "tunnel_method cfg req (initial_request cfg rt req protocol fallbackHost params parsedQuery)
             = ((initial_request cfg rt req protocol fallbackHost params parsedQuery)\<lparr>req_method := ''patch''\<rparr>, None)"
      using True assms m by (simp add: tunnel_method_def)
    have b: "buildRequestObject cfg rt req protocol fallbackHost params parsedQuery =
             read_body rt req ((initial_request cfg rt req protocol fallbackHost params parsedQuery)\<lparr>req_method := ''patch''\<rparr>)"
      by (simp add: buildRequestObject_def t)
    have p1: "\<forall>it. buildRequestObject cfg rt req protocol fallbackHost params parsedQuery = Inr it
                  \<longrightarrow> req_method it = ''patch''"
      unfolding b using read_body_method by fastforce
    have p2: "\<not> hasBody_of rt req \<longrightarrow>
               (\<exists>it. buildRequestObject cfg rt req protocol fallbackHost params parsedQuery = Inr it)"
      unfolding b by (simp add: read_body_def)
    show ?thesis
      using True p1 p2 by simp
  qed
qed

text \<open>\<open>POST /people\<close> with \<open>x-http-method-override: PATCH\<close> and no body, tunnel off and on.\<close>

theorem tunnel_post_patch_witness:
  "buildRequestObject \<lparr> tunnel = False, handleContentNegotiation = True, host = None \<rparr>
       sample_runtime sample_incoming None (Some ''localhost'') sample_params None =
     Inl (ThrownAPIError (APIError (Some 400) None
            (''Cannot tunnel to the method '' @ [CHR 0x22] @ ''PATCH'' @ [CHR 0x22] @ ''.''))) \<and>
   (\<exists>it. buildRequestObject \<lparr> tunnel = True, handleContentNegotiation = True, host = None \<rparr>
            sample_runtime sample_incoming None (Some ''localhost'') sample_params None = Inr it \<and>
         req_method it = ''patch'')"
proof -
  have a: "toLowerCase (im_method sample_incoming) = ''post''"
    "im_headers sample_incoming ''x-http-method-override'' = Some ''PATCH''"
    "toLowerCase ''PATCH'' = ''patch''"
    by (simp_all add: sample_incoming_def toLowerCase_samples)
  have nb: "\<not> hasBody_of sample_runtime sample_incoming"
    by (simp add: hasBody_of_def sample_incoming_def)
  show ?thesis
    using tunnel_post_patch [OF a, of "\<lparr> tunnel = False, handleContentNegotiation = True, host = None \<rparr>"
            sample_runtime None "Some ''localhost''" sample_params None]
          tunnel_post_patch [OF a, of "\<lparr> tunnel = True, handleContentNegotiation = True, host = None \<rparr>"
            sample_runtime None "Some ''localhost''" sample_params None]
          nb
    by auto
qed

text \<open>
  The claim as stated gives the text without the quotes around the method name; the
  rejection of the code does not carry that text.
\<close>

theorem tunnel_message_differs:
  "buildRequestObject \<lparr> tunnel = False, handleContentNegotiation = True, host = None \<rparr>
       sample_runtime sample_incoming None (Some ''localhost'') sample_params None
   \<noteq> Inl (ThrownAPIError (APIError (Some 400) None ''Cannot tunnel to the method PATCH.''))"
  by (simp add: buildRequestObject_def tunnel_method_def Let_def sample_incoming_def
        toLowerCase_samples toUpperCase_patch)

text \<open>
  C10. Tunnelling only ever rewrites POST to PATCH: for every incoming request with a
  non-empty \<open>x-http-method-override\<close> header, unless tunnelling is enabled and the method is
  \<open>post\<close> and the override is \<open>patch\<close> (both compared in lower case), \<open>buildRequestObject\<close>
  rejects with a 400 APIError naming the requested method.
\<close>

theorem tunnel_override_rejected:
  assumes "im_headers req ''x-http-method-override'' = Some h" and "h \<noteq> []"
    and "\<not> (tunnel cfg \<and> toLowerCase (im_method req) = ''post'' \<and> toLowerCase h = ''patch'')"
  shows "buildRequestObject cfg rt req protocol fallbackHost params parsedQuery =
           Inl (ThrownAPIError (APIError (Some 400) None
                  (''Cannot tunnel to the method '' @ [CHR 0x22] @ toUpperCase (toLowerCase h) @
                   [CHR 0x22] @ ''.'')))"
  using assms
  by (auto simp: buildRequestObject_def tunnel_method_def initial_request_def Let_def
        toLowerCase_Nil)

text \<open>
  With tunnelling enabled: a POST that asks for DELETE, and a GET that asks for PATCH.
\<close>

theorem tunnel_override_rejected_witness:
  "buildRequestObject \<lparr> tunnel = True, handleContentNegotiation = True, host = None \<rparr>
       sample_runtime (sample_incoming\<lparr>im_headers := [''x-http-method-override'' \<mapsto> ''DELETE'']\<rparr>)
       None (Some ''localhost'') sample_params None =
     Inl (ThrownAPIError (APIError (Some 400) None
            (''Cannot tunnel to the method '' @ [CHR 0x22] @ ''DELETE'' @ [CHR 0x22] @ ''.''))) \<and>
   buildRequestObject \<lparr> tunnel = True, handleContentNegotiation = True, host = None \<rparr>
       sample_runtime (sample_incoming\<lparr>im_method := ''GET''\<rparr>)
       None (Some ''localhost'') sample_params None =
     Inl (ThrownAPIError (APIError (Some 400) None
            (''Cannot tunnel to the method '' @ [CHR 0x22] @ ''PATCH'' @ [CHR 0x22] @ ''.'')))"
  using
    tunnel_override_rejected
      [of "sample_incoming\<lparr>im_headers := [''x-http-method-override'' \<mapsto> ''DELETE'']\<rparr>" "''DELETE''"
          "\<lparr> tunnel = True, handleContentNegotiation = True, host = None \<rparr>"
          sample_runtime None "Some ''localhost''" sample_params None]
    tunnel_override_rejected
      [of "sample_incoming\<lparr>im_method := ''GET''\<rparr>" "''PATCH''"
          "\<lparr> tunnel = True, handleContentNegotiation = True, host = None \<rparr>"
          sample_runtime None "Some ''localhost''" sample_params None]
  by (simp add: sample_incoming_def toLowerCase_samples toUpperCase_patch)

end
